theory Spec2Isabelle
  imports Complex_Main
begin

section \<open>Errors and tensors\<close>

text \<open>
  The notebook computes with float32 tensors. Here a float is a \<^typ>\<open>real\<close>: rounding,
  overflow and NaN are outside the model, and the conversions \<open>torch.tensor(...).float()\<close>
  and \<open>.numpy()\<close> keep the values as they are. A tensor is a nested list, row-major; a
  list without rows does not record the sizes of its inner axes, so a shape check on a
  sequence of length 0 compares nothing.
  Every exception of the source is a value of \<open>error\<close>; a computation that can raise returns
  \<open>error + 'a\<close> with \<open>Inl\<close> for the exception.
\<close>

datatype error =
    ZeroDivisionError
  | ValueError
  | ShapeError
  | RequiresGradError

text \<open>\<open>ShapeError\<close> and \<open>RequiresGradError\<close> are both RuntimeError in torch: the first for
  a shape mismatch in a linear map or a view, the second for \<open>numpy()\<close> on a tensor that
  requires grad.\<close>

definition and_then :: "error + 'a \<Rightarrow> ('a \<Rightarrow> error + 'b) \<Rightarrow> error + 'b" where
  "and_then r f = (case r of Inl e \<Rightarrow> Inl e | Inr v \<Rightarrow> f v)"

section \<open>nn.Linear\<close>

record Linear =
  in_features :: nat
  out_features :: nat
  weight :: "real list list"
  bias :: "real list"

text \<open>
  torch fills a new layer from its random number generator. The values drawn are an
  argument here: \<open>init_weight ini s i j\<close> is entry \<open>(i, j)\<close> of the weight of the \<open>s\<close>-th
  linear layer created, \<open>init_bias ini s i\<close> entry \<open>i\<close> of its bias.
\<close>

record initializer =
  init_weight :: "nat \<Rightarrow> nat \<Rightarrow> nat \<Rightarrow> real"
  init_bias :: "nat \<Rightarrow> nat \<Rightarrow> real"

definition nn_Linear :: "initializer \<Rightarrow> nat \<Rightarrow> nat \<Rightarrow> nat \<Rightarrow> Linear" where
  "nn_Linear ini s n_in n_out =
     \<lparr>in_features = n_in, out_features = n_out,
      weight = map (\<lambda>i. map (\<lambda>j. init_weight ini s i j) [0..<n_in]) [0..<n_out],
      bias = map (\<lambda>i. init_bias ini s i) [0..<n_out]\<rparr>"

text \<open>The shape a layer has by construction: weight \<open>out \<times> in\<close>, bias \<open>out\<close>.\<close>

definition Linear_ok :: "Linear \<Rightarrow> bool" where
  "Linear_ok lin \<longleftrightarrow>
     length (weight lin) = out_features lin \<and>
     list_all (\<lambda>r. length r = in_features lin) (weight lin) \<and>
     length (bias lin) = out_features lin"

text \<open>One row: \<open>y[i] = sum_j W[i][j] * v[j] + b[i]\<close>.\<close>

definition affine :: "Linear \<Rightarrow> real list \<Rightarrow> real list" where
  "affine lin v =
     map (\<lambda>i. sum_list (map (\<lambda>j. weight lin ! i ! j * v ! j) [0..<in_features lin]) + bias lin ! i)
       [0..<out_features lin]"

text \<open>
  \<open>Linear.forward\<close> on a sequence of rows (shape \<open>(L, in)\<close>): torch raises unless the last
  axis has size \<open>in_features\<close>.
\<close>

definition Linear_forward :: "Linear \<Rightarrow> real list list \<Rightarrow> error + real list list" where
  "Linear_forward lin X =
     (if list_all (\<lambda>r. length r = in_features lin) X then Inr (map (affine lin) X)
      else Inl ShapeError)"

section \<open>TimeEmbedding\<close>

record TimeEmbedding =
  dim :: nat
  w :: Linear

definition TimeEmbedding_init :: "initializer \<Rightarrow> nat \<Rightarrow> nat \<Rightarrow> TimeEmbedding" where
  "TimeEmbedding_init ini s d = \<lparr>dim = d, w = nn_Linear ini s 1 d\<rparr>"

definition TimeEmbedding_ok :: "TimeEmbedding \<Rightarrow> bool" where
  "TimeEmbedding_ok te \<longleftrightarrow>
     Linear_ok (w te) \<and> in_features (w te) = 1 \<and> out_features (w te) = dim te"

text \<open>\<open>t.unsqueeze(-1)\<close>: every scalar becomes a row of one element.\<close>

definition unsqueeze_last :: "real list \<Rightarrow> real list list" where
  "unsqueeze_last t = map (\<lambda>s. [s]) t"

definition TimeEmbedding_forward :: "TimeEmbedding \<Rightarrow> real list \<Rightarrow> error + real list list" where
  "TimeEmbedding_forward te t =
     and_then (Linear_forward (w te) (unsqueeze_last t)) (\<lambda>y. Inr (map (map cos) y))"

section \<open>MultiTimeAttention\<close>

record MultiTimeAttention =
  embed_dim :: nat
  num_heads :: nat
  head_dim :: nat
  q_linear :: Linear
  k_linear :: Linear
  v_linear :: Linear
  time_embedding :: TimeEmbedding

text \<open>
  \<open>__init__\<close>: the only statement that can raise is \<open>embed_dim // num_heads\<close>, before any
  layer is created. Nothing compares \<open>embed_dim\<close> with \<open>num_heads * head_dim\<close>. The
  dimensions are natural numbers. The four linear layers take the slots \<open>s .. s+3\<close>.
\<close>

definition MultiTimeAttention_init ::
  "initializer \<Rightarrow> nat \<Rightarrow> nat \<Rightarrow> nat \<Rightarrow> nat \<Rightarrow> error + MultiTimeAttention" where
  "MultiTimeAttention_init ini s input_dim e h =
     (if h = 0 then Inl ZeroDivisionError
      else Inr \<lparr>embed_dim = e, num_heads = h, head_dim = e div h,
                q_linear = nn_Linear ini s input_dim e,
                k_linear = nn_Linear ini (s + 1) input_dim e,
                v_linear = nn_Linear ini (s + 2) input_dim e,
                time_embedding = TimeEmbedding_init ini (s + 3) e\<rparr>)"

text \<open>
  \<open>X.view(L, H, D)\<close> on one sample: the elements in row-major order are regrouped into
  \<open>L\<close> rows of \<open>H\<close> blocks of \<open>D\<close>; torch raises when the number of elements differs
  from \<open>L * H * D\<close>.
\<close>

definition view3 :: "nat \<Rightarrow> nat \<Rightarrow> nat \<Rightarrow> real list list \<Rightarrow> error + real list list list" where
  "view3 L H D X =
     (let flat = concat X in
      if length flat = L * H * D
      then Inr (map (\<lambda>l. map (\<lambda>h. take D (drop ((l * H + h) * D) flat)) [0..<H]) [0..<L])
      else Inl ShapeError)"

text \<open>\<open>.transpose(1, 2)\<close> of a sample of shape \<open>(n1, n2, _)\<close>: the result has shape
  \<open>(n2, n1, _)\<close>.\<close>

definition transpose12 :: "nat \<Rightarrow> nat \<Rightarrow> 'a list list \<Rightarrow> 'a list list" where
  "transpose12 n1 n2 T = map (\<lambda>b. map (\<lambda>a. T ! a ! b) [0..<n1]) [0..<n2]"

text \<open>\<open>x.view(L, H, D).transpose(1, 2)\<close>, shape \<open>(H, L, D)\<close>.\<close>

definition split_heads :: "nat \<Rightarrow> nat \<Rightarrow> nat \<Rightarrow> real list list \<Rightarrow> error + real list list list" where
  "split_heads L H D X = and_then (view3 L H D X) (\<lambda>T. Inr (transpose12 L H T))"

text \<open>\<open>torch.matmul(A, B)\<close> for \<open>A\<close> of shape \<open>(n, k)\<close> and \<open>B\<close> of shape \<open>(k, m)\<close>.\<close>

definition matmul :: "nat \<Rightarrow> nat \<Rightarrow> nat \<Rightarrow> real list list \<Rightarrow> real list list \<Rightarrow> real list list" where
  "matmul n k m A B =
     map (\<lambda>i. map (\<lambda>j. sum_list (map (\<lambda>l. A ! i ! l * B ! l ! j) [0..<k])) [0..<m]) [0..<n]"

text \<open>\<open>torch.matmul(a, b.transpose(-2, -1))\<close>, head by head: \<open>a\<close> of shape \<open>(H, n, k)\<close>,
  \<open>b\<close> of shape \<open>(H, m, k)\<close>.\<close>

definition matmul_transposed ::
  "nat \<Rightarrow> nat \<Rightarrow> nat \<Rightarrow> nat \<Rightarrow> real list list list \<Rightarrow> real list list list \<Rightarrow> real list list list" where
  "matmul_transposed H n k m a b =
     map (\<lambda>h. matmul n k m (a ! h) (transpose12 m k (b ! h))) [0..<H]"

definition tensor_div :: "real list list list \<Rightarrow> real \<Rightarrow> real list list list" where
  "tensor_div T c = map (map (map (\<lambda>v. v / c))) T"

definition tensor_add3 :: "real list list list \<Rightarrow> real list list list \<Rightarrow> real list list list" where
  "tensor_add3 S T = map2 (map2 (map2 (+))) S T"

text \<open>
  \<open>torch.softmax(_, dim=-1)\<close> on one row, with the maximum subtracted before the
  exponential as torch does. The empty row stays empty.
\<close>

definition softmax_row :: "real list \<Rightarrow> real list" where
  "softmax_row xs =
     (if xs = [] then []
      else let m = Max (set xs); es = map (\<lambda>v. exp (v - m)) xs
           in map (\<lambda>e. e / sum_list es) es)"

definition softmax_last :: "real list list list \<Rightarrow> real list list list" where
  "softmax_last T = map (map softmax_row) T"

text \<open>
  The forward pass on one sample, \<open>x\<close> of shape \<open>(L, input_dim)\<close> and \<open>t\<close> of shape
  \<open>(L)\<close>, cut where the source names a value. Every tensor operation of the source acts
  on each sample of a batch by itself, so a batch is a list of samples.

  \<open>MTA_heads\<close>: the four linear streams, each split into heads.
\<close>

definition MTA_heads ::
  "MultiTimeAttention \<Rightarrow> real list list \<Rightarrow> real list \<Rightarrow>
   error + (real list list list \<times> real list list list \<times> real list list list \<times> real list list list)" where
  "MTA_heads m x t =
     (let L = length x in
      and_then (Linear_forward (q_linear m) x) (\<lambda>q.
      and_then (Linear_forward (k_linear m) x) (\<lambda>k.
      and_then (Linear_forward (v_linear m) x) (\<lambda>v.
      and_then (TimeEmbedding_forward (time_embedding m) t) (\<lambda>te.
      and_then (split_heads L (num_heads m) (head_dim m) q) (\<lambda>qh.
      and_then (split_heads L (num_heads m) (head_dim m) k) (\<lambda>kh.
      and_then (split_heads L (num_heads m) (head_dim m) v) (\<lambda>vh.
      and_then (split_heads L (num_heads m) (head_dim m) te) (\<lambda>teh.
      Inr (qh, kh, vh, teh))))))))))"

text \<open>The two score tensors, each \<open>matmul(q, _.transpose(-2, -1)) / np.sqrt(head_dim)\<close>.\<close>

definition MTA_score ::
  "MultiTimeAttention \<Rightarrow> nat \<Rightarrow> real list list list \<Rightarrow> real list list list \<Rightarrow> real list list list" where
  "MTA_score m L qh kh =
     tensor_div (matmul_transposed (num_heads m) L (head_dim m) L qh kh) (sqrt (real (head_dim m)))"

text \<open>The value of \<open>attn\<close> before the softmax: the two score tensors added.\<close>

definition MTA_logits_of ::
  "MultiTimeAttention \<Rightarrow> nat \<Rightarrow> real list list list \<Rightarrow> real list list list \<Rightarrow> real list list list
   \<Rightarrow> real list list list" where
  "MTA_logits_of m L qh kh teh = tensor_add3 (MTA_score m L qh kh) (MTA_score m L qh teh)"

text \<open>\<open>out.transpose(1, 2).contiguous().view(L, embed_dim)\<close> for \<open>out\<close> of shape
  \<open>(H, L, _)\<close>.\<close>

definition merge_heads :: "nat \<Rightarrow> nat \<Rightarrow> nat \<Rightarrow> real list list list \<Rightarrow> error + real list list" where
  "merge_heads L H E T =
     (let flat = concat (concat (transpose12 H L T)) in
      if length flat = L * E
      then Inr (map (\<lambda>l. take E (drop (l * E) flat)) [0..<L])
      else Inl ShapeError)"

definition MultiTimeAttention_forward ::
  "MultiTimeAttention \<Rightarrow> real list list \<Rightarrow> real list \<Rightarrow> error + real list list" where
  "MultiTimeAttention_forward m x t =
     and_then (MTA_heads m x t) (\<lambda>(qh, kh, vh, teh).
       let L = length x;
           attn = softmax_last (MTA_logits_of m L qh kh teh);
           out = map (\<lambda>h. matmul L L (head_dim m) (attn ! h) (vh ! h)) [0..<num_heads m]
       in merge_heads L (num_heads m) (embed_dim m) out)"

text \<open>The intermediate values of \<open>attn\<close> in that forward pass: before and after the
  softmax, shape \<open>(H, L, L)\<close>.\<close>

definition MTA_logits :: "MultiTimeAttention \<Rightarrow> real list list \<Rightarrow> real list \<Rightarrow> error + real list list list" where
  "MTA_logits m x t =
     and_then (MTA_heads m x t) (\<lambda>(qh, kh, vh, teh). Inr (MTA_logits_of m (length x) qh kh teh))"

definition MTA_attn :: "MultiTimeAttention \<Rightarrow> real list list \<Rightarrow> real list \<Rightarrow> error + real list list list" where
  "MTA_attn m x t =
     and_then (MTA_heads m x t) (\<lambda>(qh, kh, vh, teh).
       Inr (softmax_last (MTA_logits_of m (length x) qh kh teh)))"

definition MultiTimeAttention_ok :: "nat \<Rightarrow> nat \<Rightarrow> MultiTimeAttention \<Rightarrow> bool" where
  "MultiTimeAttention_ok input_dim e m \<longleftrightarrow>
     embed_dim m = e \<and> head_dim m = e div num_heads m \<and>
     Linear_ok (q_linear m) \<and> in_features (q_linear m) = input_dim \<and> out_features (q_linear m) = e \<and>
     Linear_ok (k_linear m) \<and> in_features (k_linear m) = input_dim \<and> out_features (k_linear m) = e \<and>
     Linear_ok (v_linear m) \<and> in_features (v_linear m) = input_dim \<and> out_features (v_linear m) = e \<and>
     TimeEmbedding_ok (time_embedding m) \<and> dim (time_embedding m) = e"

text \<open>The spec's constraint on a block: \<open>embedDim % numHeads == 0\<close> (Python's \<open>%\<close> raises for
  \<open>numHeads = 0\<close>).\<close>

definition heads_divide :: "nat \<Rightarrow> MultiTimeAttention \<Rightarrow> bool" where
  "heads_divide e l \<longleftrightarrow> 0 < num_heads l \<and> e mod num_heads l = 0"

section \<open>ImprovedMTAN\<close>

record ImprovedMTAN =
  input_proj :: Linear
  attention_layers :: "MultiTimeAttention list"
  fc :: Linear

text \<open>The list comprehension over \<open>range(num_layers)\<close>; the first layer whose constructor
  raises ends the construction.\<close>

fun make_layers :: "initializer \<Rightarrow> nat \<Rightarrow> nat \<Rightarrow> nat \<Rightarrow> nat \<Rightarrow> error + MultiTimeAttention list" where
  "make_layers ini s hidden h 0 = Inr []"
| "make_layers ini s hidden h (Suc n) =
     and_then (MultiTimeAttention_init ini s hidden hidden h) (\<lambda>layer.
     and_then (make_layers ini (s + 4) hidden h n) (\<lambda>rest. Inr (layer # rest)))"

definition ImprovedMTAN_init ::
  "initializer \<Rightarrow> nat \<Rightarrow> nat \<Rightarrow> nat \<Rightarrow> nat \<Rightarrow> error + ImprovedMTAN" where
  "ImprovedMTAN_init ini input_dim hidden_dim h num_layers =
     (let ip = nn_Linear ini 0 input_dim hidden_dim in
      and_then (make_layers ini 1 hidden_dim h num_layers) (\<lambda>layers.
        Inr \<lparr>input_proj = ip, attention_layers = layers,
             fc = nn_Linear ini (1 + 4 * num_layers) hidden_dim 1\<rparr>))"

text \<open>Elementwise sum of two tensors of the same shape \<open>(L, E)\<close>.\<close>

definition tensor_add2 :: "real list list \<Rightarrow> real list list \<Rightarrow> real list list" where
  "tensor_add2 S T = map2 (map2 (+)) S T"

text \<open>The loop \<open>for layer in self.attention_layers: x = layer(x, t) + x\<close>.\<close>

fun residual_layers ::
  "MultiTimeAttention list \<Rightarrow> real list \<Rightarrow> real list list \<Rightarrow> error + real list list" where
  "residual_layers [] t x = Inr x"
| "residual_layers (layer # rest) t x =
     and_then (MultiTimeAttention_forward layer x t) (\<lambda>y. residual_layers rest t (tensor_add2 y x))"

text \<open>\<open>.squeeze(-1)\<close> on a tensor whose last axis has size 1, as the output of \<open>fc\<close> has.\<close>

definition squeeze_last :: "real list list \<Rightarrow> real list" where
  "squeeze_last y = map (\<lambda>r. r ! 0) y"

text \<open>The forward pass on one sample: \<open>t\<close> and \<open>x\<close> of shape \<open>(L)\<close>.\<close>

definition ImprovedMTAN_forward :: "ImprovedMTAN \<Rightarrow> real list \<Rightarrow> real list \<Rightarrow> error + real list" where
  "ImprovedMTAN_forward m t x =
     and_then (Linear_forward (input_proj m) (unsqueeze_last x)) (\<lambda>x0.
     and_then (residual_layers (attention_layers m) t x0) (\<lambda>xn.
     and_then (Linear_forward (fc m) xn) (\<lambda>y. Inr (squeeze_last y))))"

text \<open>The shape a model has by construction, for hidden width \<open>e\<close> and scalar input.\<close>

definition ImprovedMTAN_ok :: "nat \<Rightarrow> ImprovedMTAN \<Rightarrow> bool" where
  "ImprovedMTAN_ok e m \<longleftrightarrow>
     Linear_ok (input_proj m) \<and> in_features (input_proj m) = 1 \<and> out_features (input_proj m) = e \<and>
     list_all (MultiTimeAttention_ok e e) (attention_layers m) \<and>
     Linear_ok (fc m) \<and> in_features (fc m) = e \<and> out_features (fc m) = 1"

section \<open>Trainer\<close>

text \<open>
  The loss is a float32 scalar; what matters to the control flow is whether it is finite.
  One pass of the loop body up to \<open>scheduler.step(loss)\<close> (zero_grad, forward, MSELoss, backward,
  Adam step, scheduler step) is torch code outside the notebook: it is the argument \<open>step\<close>,
  which maps the training state (parameters, Adam moments, scheduler counters) to the new
  state and the loss, or raises. \<open>train_model\<close> itself is the \<open>for\<close> loop and the
  report of every 1000th epoch.
\<close>

datatype loss_value = Finite real | NonFinite

fun train_epochs ::
  "('s \<Rightarrow> error + 's \<times> loss_value) \<Rightarrow> nat list \<Rightarrow> 's \<Rightarrow> (nat \<times> loss_value) list
   \<Rightarrow> error + 's \<times> (nat \<times> loss_value) list" where
  "train_epochs step [] s printed = Inr (s, printed)"
| "train_epochs step (epoch # rest) s printed =
     and_then (step s) (\<lambda>(s', loss).
       train_epochs step rest s'
         (if (epoch + 1) mod 1000 = 0 then printed @ [(epoch + 1, loss)] else printed))"

definition train_model ::
  "('s \<Rightarrow> error + 's \<times> loss_value) \<Rightarrow> nat \<Rightarrow> 's \<Rightarrow> error + 's \<times> (nat \<times> loss_value) list" where
  "train_model step epochs s = train_epochs step [0..<epochs] s []"

section \<open>np.interp and the conversion to numpy\<close>

text \<open>
  \<open>np.interp(x, xp, fp)\<close> is numpy code (\<open>arr_interp\<close>), modelled statement by statement.
  \<open>bisect\<close> is the final loop of \<open>binary_search_with_guess\<close>; it returns the last \<open>imin\<close>.
\<close>

function bisect :: "real \<Rightarrow> real list \<Rightarrow> nat \<Rightarrow> nat \<Rightarrow> nat" where
  "bisect key arr imin imax =
     (if imin < imax
      then (if key \<ge> arr ! (imin + (imax - imin) div 2)
            then bisect key arr (imin + (imax - imin) div 2 + 1) imax
            else bisect key arr imin (imin + (imax - imin) div 2))
      else imin)"
  by pat_completeness auto
termination
  by (relation "measure (\<lambda>(key, arr, imin, imax). imax - imin)") auto

declare bisect.simps [simp del]

text \<open>The linear search on arrays of at most 4 elements: it starts at index 1 and returns
  the index before the first element above the key.\<close>

definition linear_search :: "real \<Rightarrow> real list \<Rightarrow> int" where
  "linear_search key arr = int (length (takeWhile (\<lambda>a. key \<ge> a) (drop 1 arr)))"

text \<open>
  \<open>binary_search_with_guess(key, arr, len, guess)\<close>: \<open>len\<close> above the last element, \<open>-1\<close>
  below the first, then the linear search on a short array, otherwise the three elements
  around the clamped guess, a window of 8 elements on either side, and the bisection.
  Nothing checks that \<open>arr\<close> is sorted.
\<close>

definition binary_search_with_guess :: "real \<Rightarrow> real list \<Rightarrow> int \<Rightarrow> int" where
  "binary_search_with_guess key arr guess =
     (let len = length arr in
      if key > arr ! (len - 1) then int len
      else if key < arr ! 0 then - 1
      else if len \<le> 4 then linear_search key arr
      else
        let g = nat (max 1 (min guess (int len - 3))) in
        if key < arr ! g then
          (if key < arr ! (g - 1)
           then int (bisect key arr (if g > 8 \<and> key \<ge> arr ! (g - 8) then g - 8 else 0) (g - 1)) - 1
           else int g - 1)
        else if key < arr ! (g + 1) then int g
        else if key < arr ! (g + 2) then int g + 1
        else int (bisect key arr (g + 2)
                    (if g + 9 < len \<and> key < arr ! (g + 8) then g + 8 else len)) - 1)"

text \<open>The value stored for one query point once the index \<open>j\<close> is found.\<close>

definition interp_value :: "real list \<Rightarrow> real list \<Rightarrow> int \<Rightarrow> real \<Rightarrow> real" where
  "interp_value xp fp j x =
     (let n = length xp; lval = fp ! 0; rval = fp ! (n - 1) in
      if j = - 1 then lval
      else if j = int n then rval
      else if j = int n - 1 then fp ! nat j
      else if xp ! nat j = x then fp ! nat j
      else
        let slope = (fp ! (nat j + 1) - fp ! nat j) / (xp ! (nat j + 1) - xp ! nat j)
        in slope * (x - xp ! nat j) + fp ! nat j)"

text \<open>The loop over the query points; the index found for one point is the guess for the
  next.\<close>

fun interp_loop :: "real list \<Rightarrow> real list \<Rightarrow> int \<Rightarrow> real list \<Rightarrow> real list" where
  "interp_loop xp fp j [] = []"
| "interp_loop xp fp j (x # xs) =
     interp_value xp fp (binary_search_with_guess x xp j) x
       # interp_loop xp fp (binary_search_with_guess x xp j) xs"

text \<open>The branch for a single sample point.\<close>

definition interp_single :: "real list \<Rightarrow> real list \<Rightarrow> real \<Rightarrow> real" where
  "interp_single xp fp x =
     (let lval = fp ! 0; rval = fp ! (length xp - 1) in
      if x < xp ! 0 then lval else if x > xp ! 0 then rval else fp ! 0)"

definition np_interp_values :: "real list \<Rightarrow> real list \<Rightarrow> real list \<Rightarrow> real list" where
  "np_interp_values xp fp x =
     (if length xp = 1 then map (interp_single xp fp) x else interp_loop xp fp 0 x)"

definition np_interp :: "real list \<Rightarrow> real list \<Rightarrow> real list \<Rightarrow> error + real list" where
  "np_interp x xp fp =
     (if xp = [] then Inl ValueError
      else if length fp \<noteq> length xp then Inl ValueError
      else Inr (np_interp_values xp fp x))"

text \<open>What \<open>.numpy()\<close> returns: an array of dimension 0, 1 or 2.\<close>

datatype ndarray = Array0 real | Array1 "real list" | Array2 "real list list"

text \<open>\<open>.squeeze()\<close> without an axis drops every axis of size 1 of a tensor of shape
  \<open>(B, L)\<close>.\<close>

definition squeeze_all :: "nat \<Rightarrow> nat \<Rightarrow> real list list \<Rightarrow> ndarray" where
  "squeeze_all B L T =
     (if B = 1 \<and> L = 1 then Array0 (T ! 0 ! 0)
      else if B = 1 then Array1 (T ! 0)
      else if L = 1 then Array1 (map (\<lambda>r. r ! 0) T)
      else Array2 T)"

text \<open>\<open>Tensor.numpy()\<close> raises on a tensor that requires grad.\<close>

definition Tensor_numpy :: "bool \<Rightarrow> ndarray \<Rightarrow> error + ndarray" where
  "Tensor_numpy requires_grad a = (if requires_grad then Inl RequiresGradError else Inr a)"

section \<open>Process state and calls of modules\<close>

text \<open>
  The state of the process outside the arguments of a call: torch's grad mode and the state
  of the global random number generators (numpy's and torch's, taken as one value).
\<close>

record torch_state =
  grad_enabled :: bool
  rng_state :: nat



text \<open>
  A module is a mutable object and a call of it runs in the process state. The
  \<open>_call\<close> functions are the forward passes once more, now as such calls: each takes the
  process state and the module, and returns the result, the module as the call leaves it
  and the process state as the call leaves it. A call of a submodule hands its submodule
  back to the field it came from; an exception ends the call with the objects as they are
  at that point.

  \<open>Linear.forward\<close> is \<open>F.linear(input, self.weight, self.bias)\<close>: it reads the two
  parameters.
\<close>

definition Linear_call ::
  "torch_state \<Rightarrow> Linear \<Rightarrow> real list list \<Rightarrow> (error + real list list) \<times> Linear \<times> torch_state" where
  "Linear_call st lin X = (Linear_forward lin X, lin, st)"

definition TimeEmbedding_call ::
  "torch_state \<Rightarrow> TimeEmbedding \<Rightarrow> real list
   \<Rightarrow> (error + real list list) \<times> TimeEmbedding \<times> torch_state" where
  "TimeEmbedding_call st te t =
     (case Linear_call st (w te) (unsqueeze_last t) of
        (r, w', s1) \<Rightarrow> (and_then r (\<lambda>y. Inr (map (map cos) y)), te\<lparr>w := w'\<rparr>, s1))"

text \<open>What \<open>MultiTimeAttention.forward\<close> does with the four streams once they are computed:
  tensor operations only.\<close>

definition MTA_attend ::
  "MultiTimeAttention \<Rightarrow> nat \<Rightarrow> real list list \<Rightarrow> real list list \<Rightarrow> real list list
   \<Rightarrow> real list list \<Rightarrow> error + real list list" where
  "MTA_attend m L q k v te =
     and_then (split_heads L (num_heads m) (head_dim m) q) (\<lambda>qh.
     and_then (split_heads L (num_heads m) (head_dim m) k) (\<lambda>kh.
     and_then (split_heads L (num_heads m) (head_dim m) v) (\<lambda>vh.
     and_then (split_heads L (num_heads m) (head_dim m) te) (\<lambda>teh.
       let attn = softmax_last (MTA_logits_of m L qh kh teh);
           out = map (\<lambda>h. matmul L L (head_dim m) (attn ! h) (vh ! h)) [0..<num_heads m]
       in merge_heads L (num_heads m) (embed_dim m) out))))"

definition MultiTimeAttention_call ::
  "torch_state \<Rightarrow> MultiTimeAttention \<Rightarrow> real list list \<Rightarrow> real list
   \<Rightarrow> (error + real list list) \<times> MultiTimeAttention \<times> torch_state" where
  "MultiTimeAttention_call st m x t =
     (case Linear_call st (q_linear m) x of
        (Inl e, ql, s1) \<Rightarrow> (Inl e, m\<lparr>q_linear := ql\<rparr>, s1)
      | (Inr q, ql, s1) \<Rightarrow>
     (case Linear_call s1 (k_linear m) x of
        (Inl e, kl, s2) \<Rightarrow> (Inl e, m\<lparr>q_linear := ql, k_linear := kl\<rparr>, s2)
      | (Inr k, kl, s2) \<Rightarrow>
     (case Linear_call s2 (v_linear m) x of
        (Inl e, vl, s3) \<Rightarrow> (Inl e, m\<lparr>q_linear := ql, k_linear := kl, v_linear := vl\<rparr>, s3)
      | (Inr v, vl, s3) \<Rightarrow>
     (case TimeEmbedding_call s3 (time_embedding m) t of
        (Inl e, tm, s4) \<Rightarrow>
          (Inl e, m\<lparr>q_linear := ql, k_linear := kl, v_linear := vl, time_embedding := tm\<rparr>, s4)
      | (Inr te, tm, s4) \<Rightarrow>
          (MTA_attend m (length x) q k v te,
           m\<lparr>q_linear := ql, k_linear := kl, v_linear := vl, time_embedding := tm\<rparr>, s4)))))"

text \<open>The loop over the blocks, as calls.\<close>

fun residual_call ::
  "torch_state \<Rightarrow> MultiTimeAttention list \<Rightarrow> real list \<Rightarrow> real list list
   \<Rightarrow> (error + real list list) \<times> MultiTimeAttention list \<times> torch_state" where
  "residual_call st [] t x = (Inr x, [], st)"
| "residual_call st (layer # rest) t x =
     (case MultiTimeAttention_call st layer x t of
        (Inl e, layer', s1) \<Rightarrow> (Inl e, layer' # rest, s1)
      | (Inr y, layer', s1) \<Rightarrow>
          (case residual_call s1 rest t (tensor_add2 y x) of
             (r, rest', s2) \<Rightarrow> (r, layer' # rest', s2)))"

definition ImprovedMTAN_call ::
  "torch_state \<Rightarrow> ImprovedMTAN \<Rightarrow> real list \<Rightarrow> real list
   \<Rightarrow> (error + real list) \<times> ImprovedMTAN \<times> torch_state" where
  "ImprovedMTAN_call st m t x =
     (case Linear_call st (input_proj m) (unsqueeze_last x) of
        (Inl e, ip, s1) \<Rightarrow> (Inl e, m\<lparr>input_proj := ip\<rparr>, s1)
      | (Inr x0, ip, s1) \<Rightarrow>
     (case residual_call s1 (attention_layers m) t x0 of
        (Inl e, ls, s2) \<Rightarrow> (Inl e, m\<lparr>input_proj := ip, attention_layers := ls\<rparr>, s2)
      | (Inr xn, ls, s2) \<Rightarrow>
     (case Linear_call s2 (fc m) xn of
        (r, f, s3) \<Rightarrow>
          (and_then r (\<lambda>y. Inr (squeeze_last y)),
           m\<lparr>input_proj := ip, attention_layers := ls, fc := f\<rparr>, s3))))"

section \<open>interpolate\<close>

text \<open>
  \<open>interpolate\<close>. \<open>with torch.no_grad()\<close> switches the grad mode off and restores the
  earlier mode on exit, also when the body raises. The parameters of the model require
  grad, so the output of the model requires grad exactly when the grad mode is on at the
  call. \<open>unsqueeze(0)\<close> makes a batch of one sample. The function returns its result, the
  model object as the call of the model leaves it and the process state at its end.
\<close>

definition interpolate ::
  "torch_state \<Rightarrow> ImprovedMTAN \<Rightarrow> real list \<Rightarrow> real list \<Rightarrow> real list
   \<Rightarrow> (error + ndarray) \<times> ImprovedMTAN \<times> torch_state" where
  "interpolate st model t x t_dense =
     (let prev = grad_enabled st;
          st1 = st\<lparr>grad_enabled := False\<rparr>
      in case np_interp t_dense t x of
           Inl e \<Rightarrow> (Inl e, model, st1\<lparr>grad_enabled := prev\<rparr>)
         | Inr x_dense \<Rightarrow>
             (case ImprovedMTAN_call st1 model t_dense x_dense of
                (r, model', st2) \<Rightarrow>
                  (and_then r (\<lambda>out.
                     Tensor_numpy (grad_enabled st1) (squeeze_all 1 (length out) [out])),
                   model', st2\<lparr>grad_enabled := prev\<rparr>)))"

section \<open>Concrete values\<close>

text \<open>An initializer that makes every weight 1 and every bias 0.\<close>

definition unit_init :: initializer where
  "unit_init = \<lparr>init_weight = (\<lambda>s i j. 1), init_bias = (\<lambda>s i. 0)\<rparr>"

definition example_embedding :: TimeEmbedding where
  "example_embedding =
     \<lparr>dim = 2, w = \<lparr>in_features = 1, out_features = 2, weight = [[1], [2]], bias = [0, 1]\<rparr>\<rparr>"

definition example_square :: Linear where
  "example_square = \<lparr>in_features = 2, out_features = 2, weight = [[1, 0], [0, 1]], bias = [0, 0]\<rparr>"

text \<open>A block with two heads of size 1.\<close>

definition example_layer :: MultiTimeAttention where
  "example_layer =
     \<lparr>embed_dim = 2, num_heads = 2, head_dim = 1,
      q_linear = example_square, k_linear = example_square, v_linear = example_square,
      time_embedding = example_embedding\<rparr>"

text \<open>A model of width 2 without attention blocks, and the same with one block.\<close>

definition example_model0 :: ImprovedMTAN where
  "example_model0 =
     \<lparr>input_proj = \<lparr>in_features = 1, out_features = 2, weight = [[1], [1]], bias = [0, 0]\<rparr>,
      attention_layers = [],
      fc = \<lparr>in_features = 2, out_features = 1, weight = [[1, 1]], bias = [0]\<rparr>\<rparr>"

definition example_model1 :: ImprovedMTAN where
  "example_model1 = example_model0\<lparr>attention_layers := [example_layer]\<rparr>"

text \<open>A training step whose loss is never finite; the state counts the updates.\<close>

definition diverged_step :: "nat \<Rightarrow> error + nat \<times> loss_value" where
  "diverged_step n = Inr (Suc n, NonFinite)"


definition grad_on :: torch_state where
  "grad_on = \<lparr>grad_enabled = True, rng_state = 0\<rparr>"

section \<open>Helper lemmas\<close>

lemma and_then_Inr [simp]: "and_then (Inr v) f = f v"
  by (simp add: and_then_def)

lemma and_then_Inl [simp]: "and_then (Inl e) f = Inl e"
  by (simp add: and_then_def)

lemma nn_Linear_ok: "Linear_ok (nn_Linear ini s n_in n_out)"
  by (simp add: Linear_ok_def nn_Linear_def list_all_iff)

lemma TimeEmbedding_init_ok: "TimeEmbedding_ok (TimeEmbedding_init ini s d)"
  by (simp add: TimeEmbedding_ok_def TimeEmbedding_init_def nn_Linear_ok) (simp add: nn_Linear_def)

lemma length_affine [simp]: "length (affine lin v) = out_features lin"
  by (simp add: affine_def)

lemma affine_nth:
  "i < out_features lin \<Longrightarrow>
   affine lin v ! i = (\<Sum>j<in_features lin. weight lin ! i ! j * v ! j) + bias lin ! i"
  by (simp add: affine_def interv_sum_list_conv_sum_set_nat atLeast0LessThan)

lemma TimeEmbedding_forward_eq:
  "in_features (w te) = 1 \<Longrightarrow>
   TimeEmbedding_forward te t = Inr (map (\<lambda>s. map cos (affine (w te) [s])) t)"
  by (simp add: TimeEmbedding_forward_def Linear_forward_def unsqueeze_last_def list_all_iff comp_def)

lemma Linear_forward_Inr:
  "list_all (\<lambda>r. length r = in_features lin) X \<Longrightarrow> Linear_forward lin X = Inr (map (affine lin) X)"
  by (simp add: Linear_forward_def)

lemma length_concat_uniform:
  "list_all (\<lambda>r. length r = E) X \<Longrightarrow> length (concat X) = length X * E"
  by (induction X) simp_all

lemma concat_uniform_drop:
  "list_all (\<lambda>r. length r = E) X \<Longrightarrow> l < length X \<Longrightarrow> drop (l * E) (concat X) = concat (drop l X)"
proof (induction X arbitrary: l)
  case Nil
  then show ?case by simp
next
  case (Cons r X)
  show ?case
  proof (cases l)
    case 0
    then show ?thesis by simp
  next
    case (Suc l')
    with Cons.prems have "l' < length X" "length r = E" "list_all (\<lambda>r. length r = E) X" by simp_all
    then show ?thesis using Cons.IH [of l'] Suc by simp
  qed
qed

lemma concat_uniform_block:
  assumes "list_all (\<lambda>r. length r = H * D) X" "l < length X" "h < H"
  shows "take D (drop ((l * H + h) * D) (concat X)) = take D (drop (h * D) (X ! l))"
proof -
  have len: "length (X ! l) = H * D"
    using assms(1,2) by (simp add: list_all_length)
  have "(l * H + h) * D = h * D + l * (H * D)" by (simp add: algebra_simps)
  then have "drop ((l * H + h) * D) (concat X) = drop (h * D) (drop (l * (H * D)) (concat X))"
    by simp
  also have "\<dots> = drop (h * D) (concat (drop l X))"
    using concat_uniform_drop [OF assms(1,2)] by simp
  also have "drop l X = X ! l # drop (Suc l) X"
    using assms(2) by (simp add: Cons_nth_drop_Suc)
  finally have "drop ((l * H + h) * D) (concat X) = drop (h * D) (X ! l) @ concat (drop (Suc l) X)"
    using len assms(3) by simp
  moreover have "D \<le> length (drop (h * D) (X ! l))"
  proof -
    have "h * D + D \<le> H * D" using assms(3)
      by (metis Suc_leI mult_Suc mult_le_mono1 add.commute)
    then show ?thesis using len by simp
  qed
  ultimately show ?thesis by simp
qed

lemma view3_uniform:
  assumes "list_all (\<lambda>r. length r = H * D) X"
  shows "view3 (length X) H D X =
         Inr (map (\<lambda>l. map (\<lambda>h. take D (drop (h * D) (X ! l))) [0..<H]) [0..<length X])"
proof -
  have "length (concat X) = length X * H * D"
    using length_concat_uniform [OF assms] by (simp add: mult.assoc)
  moreover have "map (\<lambda>l. map (\<lambda>h. take D (drop ((l * H + h) * D) (concat X))) [0..<H]) [0..<length X]
     = map (\<lambda>l. map (\<lambda>h. take D (drop (h * D) (X ! l))) [0..<H]) [0..<length X]"
    using concat_uniform_block [OF assms] by simp
  ultimately show ?thesis by (simp add: view3_def)
qed

lemma split_heads_uniform:
  assumes "list_all (\<lambda>r. length r = H * D) X"
  shows "split_heads (length X) H D X =
         Inr (map (\<lambda>h. map (\<lambda>l. take D (drop (h * D) (X ! l))) [0..<length X]) [0..<H])"
  by (simp add: split_heads_def view3_uniform [OF assms] transpose12_def)

lemma list_all_affine:
  "out_features lin = e \<Longrightarrow> list_all (\<lambda>r. length r = e) (map (affine lin) X)"
  by (simp add: list_all_iff)

lemma TimeEmbedding_forward_ok:
  "TimeEmbedding_ok te \<Longrightarrow>
   TimeEmbedding_forward te t = Inr (map (\<lambda>s. map cos (affine (w te) [s])) t)"
  by (simp add: TimeEmbedding_ok_def TimeEmbedding_forward_eq)

lemma MTA_heads_ok:
  assumes ok: "MultiTimeAttention_ok input_dim e m"
    and hd: "num_heads m * head_dim m = e"
    and x: "list_all (\<lambda>r. length r = input_dim) x"
    and t: "length t = length x"
  shows "MTA_heads m x t =
    Inr (map (\<lambda>h. map (\<lambda>l. take (head_dim m) (drop (h * head_dim m) (map (affine (q_linear m)) x ! l))) [0..<length x]) [0..<num_heads m],
         map (\<lambda>h. map (\<lambda>l. take (head_dim m) (drop (h * head_dim m) (map (affine (k_linear m)) x ! l))) [0..<length x]) [0..<num_heads m],
         map (\<lambda>h. map (\<lambda>l. take (head_dim m) (drop (h * head_dim m) (map (affine (v_linear m)) x ! l))) [0..<length x]) [0..<num_heads m],
         map (\<lambda>h. map (\<lambda>l. take (head_dim m) (drop (h * head_dim m) (map (\<lambda>s. map cos (affine (w (time_embedding m)) [s])) t ! l))) [0..<length x]) [0..<num_heads m])"
proof -
  let ?H = "num_heads m" and ?D = "head_dim m"
  have q: "Linear_forward (q_linear m) x = Inr (map (affine (q_linear m)) x)"
    and k: "Linear_forward (k_linear m) x = Inr (map (affine (k_linear m)) x)"
    and v: "Linear_forward (v_linear m) x = Inr (map (affine (v_linear m)) x)"
    using ok x by (simp_all add: MultiTimeAttention_ok_def Linear_forward_Inr)
  have te: "TimeEmbedding_forward (time_embedding m) t =
      Inr (map (\<lambda>s. map cos (affine (w (time_embedding m)) [s])) t)"
    using ok by (simp add: MultiTimeAttention_ok_def TimeEmbedding_forward_ok)
  have uq: "list_all (\<lambda>r. length r = ?H * ?D) (map (affine (q_linear m)) x)"
    and uk: "list_all (\<lambda>r. length r = ?H * ?D) (map (affine (k_linear m)) x)"
    and uv: "list_all (\<lambda>r. length r = ?H * ?D) (map (affine (v_linear m)) x)"
    using ok hd by (simp_all add: MultiTimeAttention_ok_def list_all_affine)
  have ute: "list_all (\<lambda>r. length r = ?H * ?D) (map (\<lambda>s. map cos (affine (w (time_embedding m)) [s])) t)"
    using ok hd by (simp add: MultiTimeAttention_ok_def TimeEmbedding_ok_def list_all_iff)
  have sq: "split_heads (length x) ?H ?D (map (affine (q_linear m)) x) =
      Inr (map (\<lambda>h. map (\<lambda>l. take ?D (drop (h * ?D) (map (affine (q_linear m)) x ! l))) [0..<length x]) [0..<?H])"
    using split_heads_uniform [OF uq] by simp
  have sk: "split_heads (length x) ?H ?D (map (affine (k_linear m)) x) =
      Inr (map (\<lambda>h. map (\<lambda>l. take ?D (drop (h * ?D) (map (affine (k_linear m)) x ! l))) [0..<length x]) [0..<?H])"
    using split_heads_uniform [OF uk] by simp
  have sv: "split_heads (length x) ?H ?D (map (affine (v_linear m)) x) =
      Inr (map (\<lambda>h. map (\<lambda>l. take ?D (drop (h * ?D) (map (affine (v_linear m)) x ! l))) [0..<length x]) [0..<?H])"
    using split_heads_uniform [OF uv] by simp
  have ste: "split_heads (length x) ?H ?D (map (\<lambda>s. map cos (affine (w (time_embedding m)) [s])) t) =
      Inr (map (\<lambda>h. map (\<lambda>l. take ?D (drop (h * ?D) (map (\<lambda>s. map cos (affine (w (time_embedding m)) [s])) t ! l))) [0..<length x]) [0..<?H])"
    using split_heads_uniform [OF ute] t by simp
  show ?thesis
    unfolding MTA_heads_def Let_def q k v te and_then_Inr sq sk sv ste ..
qed

lemma sum_list_upt_sum: "sum_list (map f [0..<k]) = (\<Sum>l<k. f l)"
  by (simp add: interv_sum_list_conv_sum_set_nat atLeast0LessThan)

lemma matmul_transposed_nth:
  "h < H \<Longrightarrow> i < n \<Longrightarrow> j < m \<Longrightarrow>
   matmul_transposed H n k m a b ! h ! i ! j = (\<Sum>l<k. a ! h ! i ! l * b ! h ! j ! l)"
  by (simp add: matmul_transposed_def matmul_def transpose12_def sum_list_upt_sum)

lemma matmul_transposed_shape:
  "length (matmul_transposed H n k m a b) = H"
  "h < H \<Longrightarrow> length (matmul_transposed H n k m a b ! h) = n"
  "h < H \<Longrightarrow> i < n \<Longrightarrow> length (matmul_transposed H n k m a b ! h ! i) = m"
  by (simp_all add: matmul_transposed_def matmul_def)

lemma MTA_score_shape:
  "length (MTA_score m L qh kh) = num_heads m"
  "h < num_heads m \<Longrightarrow> length (MTA_score m L qh kh ! h) = L"
  "h < num_heads m \<Longrightarrow> i < L \<Longrightarrow> length (MTA_score m L qh kh ! h ! i) = L"
  by (simp_all add: MTA_score_def tensor_div_def matmul_transposed_shape)

lemma MTA_score_nth:
  "h < num_heads m \<Longrightarrow> i < L \<Longrightarrow> j < L \<Longrightarrow>
   MTA_score m L qh kh ! h ! i ! j =
     (\<Sum>d<head_dim m. qh ! h ! i ! d * kh ! h ! j ! d) / sqrt (real (head_dim m))"
  by (simp add: MTA_score_def tensor_div_def matmul_transposed_shape matmul_transposed_nth)

lemma MTA_logits_of_shape:
  "length (MTA_logits_of m L qh kh teh) = num_heads m"
  "h < num_heads m \<Longrightarrow> length (MTA_logits_of m L qh kh teh ! h) = L"
  "h < num_heads m \<Longrightarrow> i < L \<Longrightarrow> length (MTA_logits_of m L qh kh teh ! h ! i) = L"
  by (simp_all add: MTA_logits_of_def tensor_add3_def MTA_score_shape)

lemma MTA_logits_of_nth:
  "h < num_heads m \<Longrightarrow> i < L \<Longrightarrow> j < L \<Longrightarrow>
   MTA_logits_of m L qh kh teh ! h ! i ! j =
     MTA_score m L qh kh ! h ! i ! j + MTA_score m L qh teh ! h ! i ! j"
  by (simp add: MTA_logits_of_def tensor_add3_def MTA_score_shape)

lemma head_block_nth:
  assumes "list_all (\<lambda>r. length r = H * D) X" "l < length X" "h < H" "d < D"
  shows "take D (drop (h * D) (X ! l)) ! d = X ! l ! (h * D + d)"
proof -
  have "length (X ! l) = H * D" using assms(1,2) by (simp add: list_all_length)
  moreover have "h * D + D \<le> H * D" using assms(3)
    by (metis Suc_leI mult_Suc mult_le_mono1 add.commute)
  ultimately have "h * D \<le> length (X ! l)" using assms(3) by simp
  then show ?thesis using assms(4) by (simp add: nth_drop)
qed

lemma sum_list_divide: "sum_list (map (\<lambda>x. f x / c) xs) = sum_list (map f xs) / (c::real)"
  by (induction xs) (simp_all add: add_divide_distrib)

lemma softmax_row_length [simp]: "length (softmax_row xs) = length xs"
  by (simp add: softmax_row_def Let_def)

lemma exp_sum_pos: "xs \<noteq> [] \<Longrightarrow> 0 < sum_list (map (\<lambda>v. exp (v - c)) xs)" for c :: real
proof (induction xs)
  case Nil
  then show ?case by simp
next
  case (Cons a xs)
  have "0 \<le> sum_list (map (\<lambda>v. exp (v - c)) xs)"
    by (rule sum_list_nonneg) auto
  moreover have "0 < exp (a - c)" by simp
  ultimately show ?case by (simp add: add_pos_nonneg)
qed

lemma softmax_row_sum: "xs \<noteq> [] \<Longrightarrow> sum_list (softmax_row xs) = 1"
  using exp_sum_pos [of xs "Max (set xs)"]
  by (simp add: softmax_row_def Let_def comp_def sum_list_divide)

lemma softmax_row_pos: "j < length xs \<Longrightarrow> 0 < softmax_row xs ! j"
proof -
  assume j: "j < length xs"
  then have ne: "xs \<noteq> []" by auto
  show ?thesis using exp_sum_pos [OF ne, of "Max (set xs)"] j ne
    by (simp add: softmax_row_def Let_def)
qed

lemma heads_dim:
  "MultiTimeAttention_ok input_dim e m \<Longrightarrow> 0 < num_heads m \<Longrightarrow> e mod num_heads m = 0 \<Longrightarrow>
   num_heads m * head_dim m = e"
  by (auto simp add: MultiTimeAttention_ok_def)

lemma softmax_last_nth:
  "h < length A \<Longrightarrow> i < length (A ! h) \<Longrightarrow> softmax_last A ! h ! i = softmax_row (A ! h ! i)"
  by (simp add: softmax_last_def)

lemma softmax_last_shape:
  "length (softmax_last A) = length A"
  "h < length A \<Longrightarrow> length (softmax_last A ! h) = length (A ! h)"
  by (simp_all add: softmax_last_def)

lemma matmul_shape:
  "length (matmul n k m A B) = n"
  "i < n \<Longrightarrow> length (matmul n k m A B ! i) = m"
  by (simp_all add: matmul_def)

lemma merge_heads_shape:
  assumes "length T = H" "\<And>h l. h < H \<Longrightarrow> l < L \<Longrightarrow> length (T ! h ! l) = D" "H * D = E"
  shows "\<exists>y. merge_heads L H E T = Inr y \<and> length y = L \<and> list_all (\<lambda>r. length r = E) y"
proof -
  let ?U = "transpose12 H L T"
  have u1: "list_all (\<lambda>r. length r = H) ?U"
    by (simp add: transpose12_def list_all_iff)
  have c1: "length (concat ?U) = L * H"
    using length_concat_uniform [OF u1] by (simp add: transpose12_def)
  have u2: "list_all (\<lambda>r. length r = D) (concat ?U)"
    using assms(2) by (auto simp add: transpose12_def list_all_iff)
  have c2: "length (concat (concat ?U)) = L * E"
    using length_concat_uniform [OF u2] c1 assms(3) by (simp add: mult.assoc)
  have "merge_heads L H E T = Inr (map (\<lambda>l. take E (drop (l * E) (concat (concat ?U)))) [0..<L])"
    by (simp add: merge_heads_def c2)
  moreover have "list_all (\<lambda>r. length r = E) (map (\<lambda>l. take E (drop (l * E) (concat (concat ?U)))) [0..<L])"
  proof -
    have "E \<le> L * E - l * E" if "l < L" for l
    proof -
      have "l * E + E \<le> L * E" using that
        by (metis Suc_leI mult_Suc mult_le_mono1 add.commute)
      then show ?thesis by simp
    qed
    then show ?thesis by (simp add: list_all_iff c2)
  qed
  ultimately show ?thesis by simp
qed

lemma MultiTimeAttention_forward_shape:
  assumes ok: "MultiTimeAttention_ok input_dim e m"
    and H: "0 < num_heads m" and dv: "e mod num_heads m = 0"
    and x: "list_all (\<lambda>r. length r = input_dim) x"
    and t: "length t = length x"
  shows "\<exists>y. MultiTimeAttention_forward m x t = Inr y \<and> length y = length x \<and>
             list_all (\<lambda>r. length r = e) y"
proof -
  have hd: "num_heads m * head_dim m = e" by (rule heads_dim [OF ok H dv])
  obtain qh kh vh teh where heads: "MTA_heads m x t = Inr (qh, kh, vh, teh)"
    using MTA_heads_ok [OF ok hd x t] by blast
  let ?W = "softmax_last (MTA_logits_of m (length x) qh kh teh)"
  let ?out = "map (\<lambda>h. matmul (length x) (length x) (head_dim m) (?W ! h) (vh ! h)) [0..<num_heads m]"
  have fw: "MultiTimeAttention_forward m x t =
        merge_heads (length x) (num_heads m) (embed_dim m) ?out"
    by (simp add: MultiTimeAttention_forward_def heads Let_def)
  have E: "embed_dim m = e" using ok by (simp add: MultiTimeAttention_ok_def)
  have "\<exists>y. merge_heads (length x) (num_heads m) e ?out = Inr y \<and> length y = length x \<and>
             list_all (\<lambda>r. length r = e) y"
    by (rule merge_heads_shape [where D = "head_dim m"]) (simp_all add: matmul_shape hd)
  then show ?thesis by (simp add: fw E)
qed

lemma takeWhile_prefix_holds:
  "k < length (takeWhile P xs) \<Longrightarrow> P (xs ! k)"
  by (metis nth_mem set_takeWhileD takeWhile_nth)

lemma count_le_iff:
  fixes xp :: "real list"
  assumes s: "sorted_wrt (<) xp" and i: "i < length xp"
  shows "xp ! i \<le> key \<longleftrightarrow> i < length (takeWhile (\<lambda>a. key \<ge> a) xp)"
proof
  let ?c = "length (takeWhile (\<lambda>a. key \<ge> a) xp)"
  assume le: "xp ! i \<le> key"
  have "xp ! k \<le> key" if "k < Suc i" for k
  proof (cases "k = i")
    case True
    then show ?thesis using le by simp
  next
    case False
    then have "k < i" using that by simp
    then have "xp ! k < xp ! i" using s i by (simp add: sorted_wrt_nth_less)
    then show ?thesis using le by simp
  qed
  then have "Suc i \<le> ?c"
    using i by (intro length_takeWhile_less_P_nth) simp_all
  then show "i < ?c" by simp
next
  assume "i < length (takeWhile (\<lambda>a. key \<ge> a) xp)"
  then show "xp ! i \<le> key" by (rule takeWhile_prefix_holds)
qed

lemma bisect_sorted:
  "sorted_wrt (<) xp \<Longrightarrow> imin \<le> length (takeWhile (\<lambda>a. key \<ge> a) xp) \<Longrightarrow>
   length (takeWhile (\<lambda>a. key \<ge> a) xp) \<le> imax \<Longrightarrow> imax \<le> length xp \<Longrightarrow>
   bisect key xp imin imax = length (takeWhile (\<lambda>a. key \<ge> a) xp)"
proof (induction key xp imin imax rule: bisect.induct)
  case (1 key arr imin imax)
  let ?c = "length (takeWhile (\<lambda>a. key \<ge> a) arr)"
  let ?mid = "imin + (imax - imin) div 2"
  note s = "1.prems"(1)
  show ?case
  proof (cases "imin < imax")
    case False
    then have "imin = ?c" using "1.prems" by simp
    then show ?thesis using False by (subst bisect.simps) simp
  next
    case True
    then have mid: "?mid < imax" "imin \<le> ?mid" by auto
    then have midn: "?mid < length arr" using "1.prems"(4) by simp
    show ?thesis
    proof (cases "key \<ge> arr ! ?mid")
      case ge: True
      then have "?mid < ?c" using count_le_iff [OF s midn, of key] by simp
      then have "?mid + 1 \<le> ?c" by simp
      then have "bisect key arr (?mid + 1) imax = ?c"
        using True ge "1.prems" by (intro "1.IH"(1)) simp_all
      then show ?thesis using True ge by (subst bisect.simps) simp
    next
      case lt: False
      then have "\<not> ?mid < ?c" using count_le_iff [OF s midn, of key] by simp
      then have "?c \<le> ?mid" by simp
      then have "bisect key arr imin ?mid = ?c"
        using True lt "1.prems" mid by (intro "1.IH"(2)) simp_all
      then show ?thesis using True lt by (subst bisect.simps) simp
    qed
  qed
qed

lemma linear_search_scan:
  assumes "xp \<noteq> []" "xp ! 0 \<le> key"
  shows "linear_search key xp = int (length (takeWhile (\<lambda>a. key \<ge> a) xp)) - 1"
  using assms by (cases xp) (simp_all add: linear_search_def)

lemma search_sorted:
  fixes xp :: "real list"
  assumes s: "sorted_wrt (<) xp" and ne: "xp \<noteq> []"
  shows "binary_search_with_guess key xp guess =
     (if key > xp ! (length xp - 1) then int (length xp)
      else if key < xp ! 0 then - 1
      else int (length (takeWhile (\<lambda>a. key \<ge> a) xp)) - 1)"
proof (cases "key > xp ! (length xp - 1) \<or> key < xp ! 0")
  case True
  show ?thesis
  proof (cases "key > xp ! (length xp - 1)")
    case True
    then show ?thesis unfolding binary_search_with_guess_def Let_def by (simp only: if_True)
  next
    case False
    with True have "key < xp ! 0" by simp
    then show ?thesis unfolding binary_search_with_guess_def Let_def
      by (simp only: False if_False if_True)
  qed
next
  case False
  then have hi: "\<not> key > xp ! (length xp - 1)" and lo: "\<not> key < xp ! 0" by simp_all
  let ?c = "length (takeWhile (\<lambda>a. key \<ge> a) xp)"
  let ?n = "length xp"
  have iff: "xp ! i \<le> key \<longleftrightarrow> i < ?c" if "i < ?n" for i
    by (rule count_le_iff [OF s that])
  have cn: "?c \<le> ?n" by (rule length_takeWhile_le)
  show ?thesis
  proof (cases "?n \<le> 4")
    case True
    have "binary_search_with_guess key xp guess = linear_search key xp"
      unfolding binary_search_with_guess_def Let_def by (simp only: hi lo True if_False if_True)
    then show ?thesis
      using hi lo linear_search_scan [OF ne, of key] by simp
  next
    case big: False
    define g where "g = nat (max 1 (min guess (int ?n - 3)))"
    have g: "1 \<le> g" "g + 3 \<le> ?n" using big by (auto simp add: g_def)
    have b: "bisect key xp imin imax = ?c" if "imin \<le> ?c" "?c \<le> imax" "imax \<le> ?n" for imin imax
      using that by (intro bisect_sorted [OF s])
    have unfold: "binary_search_with_guess key xp guess =
        (if key < xp ! g then
          (if key < xp ! (g - 1)
           then int (bisect key xp (if g > 8 \<and> key \<ge> xp ! (g - 8) then g - 8 else 0) (g - 1)) - 1
           else int g - 1)
        else if key < xp ! (g + 1) then int g
        else if key < xp ! (g + 2) then int g + 1
        else int (bisect key xp (g + 2)
                    (if g + 9 < ?n \<and> key < xp ! (g + 8) then g + 8 else ?n)) - 1)"
      unfolding binary_search_with_guess_def Let_def g_def
      by (simp only: hi lo big if_False)
    have i0: "xp ! g \<le> key \<longleftrightarrow> g < ?c" using iff [of g] g by simp
    have i1: "xp ! (g - 1) \<le> key \<longleftrightarrow> g - 1 < ?c" using iff [of "g - 1"] g by simp
    have i2: "xp ! (g + 1) \<le> key \<longleftrightarrow> g + 1 < ?c" using iff [of "g + 1"] g by simp
    have i3: "xp ! (g + 2) \<le> key \<longleftrightarrow> g + 2 < ?c" using iff [of "g + 2"] g by simp
    have i8: "xp ! (g - 8) \<le> key \<longleftrightarrow> g - 8 < ?c" using iff [of "g - 8"] g by simp
    have i9: "xp ! (g + 8) \<le> key \<longleftrightarrow> g + 8 < ?c" if "g + 9 < ?n" using iff [of "g + 8"] that by simp
    show ?thesis
    proof (cases "key < xp ! g")
      case lt: True
      then have c1: "?c \<le> g" using i0 by simp
      show ?thesis
      proof (cases "key < xp ! (g - 1)")
        case True
        then have c2: "?c \<le> g - 1" using i1 by simp
        have "bisect key xp (if g > 8 \<and> key \<ge> xp ! (g - 8) then g - 8 else 0) (g - 1) = ?c"
          using c2 g i8 by (intro b) auto
        then show ?thesis using lt True hi lo by (simp add: unfold)
      next
        case False
        then have "g - 1 < ?c" using i1 by simp
        then have "?c = g" using c1 by simp
        then show ?thesis using lt False hi lo g by (simp add: unfold)
      qed
    next
      case ge: False
      then have c1: "g < ?c" using i0 by simp
      show ?thesis
      proof (cases "key < xp ! (g + 1)")
        case True
        then have "?c = g + 1" using i2 c1 by simp
        then show ?thesis using ge True hi lo by (simp add: unfold)
      next
        case n1: False
        then have c2: "g + 1 < ?c" using i2 by simp
        show ?thesis
        proof (cases "key < xp ! (g + 2)")
          case True
          then have "?c = g + 2" using i3 c2 by simp
          then show ?thesis using ge n1 True hi lo by (simp add: unfold)
        next
          case n2: False
          then have c3: "g + 2 < ?c" using i3 by simp
          have "bisect key xp (g + 2) (if g + 9 < ?n \<and> key < xp ! (g + 8) then g + 8 else ?n) = ?c"
            using c3 cn i9 by (intro b) auto
          then show ?thesis using ge n1 n2 hi lo by (simp add: unfold)
        qed
      qed
    qed
  qed
qed

lemma scan_index:
  fixes xp :: "real list"
  assumes s: "sorted_wrt (<) xp" and i: "Suc i < length xp"
    and lo: "xp ! i \<le> q" and hi: "q < xp ! Suc i"
  shows "length (takeWhile (\<lambda>a. q \<ge> a) xp) = Suc i"
proof -
  let ?c = "length (takeWhile (\<lambda>a. q \<ge> a) xp)"
  have "i < ?c" using count_le_iff [OF s, of i q] i lo by simp
  moreover have "\<not> Suc i < ?c" using count_le_iff [OF s i, of q] hi by simp
  ultimately show ?thesis by simp
qed

lemma scan_index_all:
  fixes xp :: "real list"
  assumes s: "sorted_wrt (<) xp" and ne: "xp \<noteq> []" and q: "xp ! (length xp - 1) \<le> q"
  shows "length (takeWhile (\<lambda>a. q \<ge> a) xp) = length xp"
proof -
  let ?c = "length (takeWhile (\<lambda>a. q \<ge> a) xp)"
  have "length xp - 1 < ?c" using count_le_iff [OF s, of "length xp - 1" q] ne q by simp
  moreover have "?c \<le> length xp" by (rule length_takeWhile_le)
  ultimately show ?thesis by simp
qed

lemma first_le_nth:
  fixes xp :: "real list"
  assumes "sorted_wrt (<) xp" "i < length xp"
  shows "xp ! 0 \<le> xp ! i"
proof (cases "i = 0")
  case True
  then show ?thesis by simp
next
  case False
  then have "xp ! 0 < xp ! i" using assms by (simp add: sorted_wrt_nth_less)
  then show ?thesis by simp
qed

lemma nth_le_last:
  fixes xp :: "real list"
  assumes "sorted_wrt (<) xp" "i < length xp"
  shows "xp ! i \<le> xp ! (length xp - 1)"
proof (cases "i = length xp - 1")
  case True
  then show ?thesis by simp
next
  case False
  then have "i < length xp - 1" using assms(2) by simp
  then have "xp ! i < xp ! (length xp - 1)" using assms by (simp add: sorted_wrt_nth_less)
  then show ?thesis by simp
qed

lemma interp_interior:
  assumes s: "sorted_wrt (<) xp" and i: "Suc i < length xp"
    and lo: "xp ! i \<le> q" and hi: "q < xp ! Suc i"
  shows "interp_value xp fp (binary_search_with_guess q xp g) q =
         fp ! i + (q - xp ! i) * (fp ! Suc i - fp ! i) / (xp ! Suc i - xp ! i)"
proof -
  have ne: "xp \<noteq> []" using i by auto
  have last: "xp ! Suc i \<le> xp ! (length xp - 1)" by (rule nth_le_last [OF s i])
  have first: "xp ! 0 \<le> xp ! i" using first_le_nth [OF s, of i] i by simp
  have idx: "binary_search_with_guess q xp g = int i"
    using scan_index [OF s i lo hi] last first lo hi by (simp add: search_sorted [OF s ne])
  have j: "int i \<noteq> int (length xp)" "int i \<noteq> int (length xp) - 1" using i by simp_all
  have "interp_value xp fp (int i) q =
      (if xp ! i = q then fp ! i
       else (fp ! Suc i - fp ! i) / (xp ! Suc i - xp ! i) * (q - xp ! i) + fp ! i)"
    unfolding interp_value_def Let_def using j by simp
  also have "\<dots> = fp ! i + (q - xp ! i) * (fp ! Suc i - fp ! i) / (xp ! Suc i - xp ! i)"
    by simp
  finally show ?thesis by (simp only: idx)
qed

lemma interp_last:
  assumes s: "sorted_wrt (<) xp" and ne: "xp \<noteq> []" and q: "xp ! (length xp - 1) \<le> q"
  shows "interp_value xp fp (binary_search_with_guess q xp g) q = fp ! (length xp - 1)"
proof -
  have first: "xp ! 0 \<le> xp ! (length xp - 1)" using first_le_nth [OF s, of "length xp - 1"] ne by simp
  have pos: "0 < length xp" using ne by simp
  have idx: "binary_search_with_guess q xp g =
      (if q > xp ! (length xp - 1) then int (length xp) else int (length xp) - 1)"
    using scan_index_all [OF s ne q] first q by (simp add: search_sorted [OF s ne])
  show ?thesis
    using pos by (simp add: interp_value_def Let_def idx nat_diff_distrib')
qed

lemma interp_first:
  assumes s: "sorted_wrt (<) xp" and n: "Suc 0 < length xp" and q: "q \<le> xp ! 0"
  shows "interp_value xp fp (binary_search_with_guess q xp g) q = fp ! 0"
proof (cases "q < xp ! 0")
  case True
  have ne: "xp \<noteq> []" using n by auto
  have "xp ! 0 \<le> xp ! (length xp - 1)" using first_le_nth [OF s, of "length xp - 1"] ne by simp
  then have "binary_search_with_guess q xp g = - 1"
    using True by (simp add: search_sorted [OF s ne])
  then show ?thesis by (simp add: interp_value_def Let_def)
next
  case False
  then have eq: "q = xp ! 0" using q by simp
  have "xp ! 0 < xp ! Suc 0" using s n by (simp add: sorted_wrt_nth_less)
  then show ?thesis using interp_interior [OF s n, of q fp g] eq by simp
qed

lemma interp_segment:
  assumes s: "sorted_wrt (<) xp" and i: "Suc i < length xp"
    and lo: "xp ! i \<le> q" and hi: "q \<le> xp ! Suc i"
  shows "interp_value xp fp (binary_search_with_guess q xp g) q =
         fp ! i + (q - xp ! i) * (fp ! Suc i - fp ! i) / (xp ! Suc i - xp ! i)"
proof (cases "q < xp ! Suc i")
  case True
  then show ?thesis by (rule interp_interior [OF s i lo])
next
  case False
  then have eq: "q = xp ! Suc i" using hi by simp
  have lt: "xp ! i < xp ! Suc i" using s i by (simp add: sorted_wrt_nth_less)
  have "interp_value xp fp (binary_search_with_guess q xp g) q = fp ! Suc i"
  proof (cases "Suc (Suc i) < length xp")
    case True
    have "xp ! Suc i < xp ! Suc (Suc i)" using s True by (simp add: sorted_wrt_nth_less)
    then show ?thesis using interp_interior [OF s True, of q fp g] eq by simp
  next
    case False
    then have eq': "Suc i = length xp - 1" using i by simp
    have ne: "xp \<noteq> []" using i by auto
    have "xp ! (length xp - 1) \<le> q" using eq eq' by simp
    then show ?thesis using interp_last [OF s ne, of q fp g] eq' by simp
  qed
  then show ?thesis using lt eq by simp
qed

lemma interp_support:
  assumes s: "sorted_wrt (<) xp" and i: "i < length xp"
  shows "interp_value xp fp (binary_search_with_guess (xp ! i) xp g) (xp ! i) = fp ! i"
proof (cases "Suc i < length xp")
  case True
  have "xp ! i < xp ! Suc i" using s True by (simp add: sorted_wrt_nth_less)
  then show ?thesis using interp_segment [OF s True, of "xp ! i" fp g] by simp
next
  case False
  then have eq: "i = length xp - 1" using i by simp
  have ne: "xp \<noteq> []" using i by auto
  have "xp ! (length xp - 1) \<le> xp ! i" using eq by simp
  then show ?thesis using interp_last [OF s ne, of "xp ! i" fp g] eq by simp
qed

lemma interp_loop_length [simp]: "length (interp_loop xp fp j xs) = length xs"
  by (induction xs arbitrary: j) simp_all

lemma interp_loop_nth:
  "k < length xs \<Longrightarrow>
   \<exists>g. interp_loop xp fp j xs ! k = interp_value xp fp (binary_search_with_guess (xs ! k) xp g) (xs ! k)"
proof (induction xs arbitrary: j k)
  case Nil
  then show ?case by simp
next
  case (Cons x xs)
  show ?case
  proof (cases k)
    case 0
    then show ?thesis by auto
  next
    case (Suc k')
    then have "k' < length xs" using Cons.prems by simp
    from Cons.IH [OF this, of "binary_search_with_guess x xp j"] show ?thesis
      using Suc by simp
  qed
qed

lemma np_interp_values_length [simp]: "length (np_interp_values xp fp xs) = length xs"
  by (simp add: np_interp_values_def)

text \<open>What \<open>np.interp\<close> stores for one query point when the sample points increase.\<close>

lemma np_interp_values_sorted:
  assumes s: "sorted_wrt (<) xp" and ne: "xp \<noteq> []" and k: "k < length xs"
  shows "(xs ! k \<le> xp ! 0 \<longrightarrow> np_interp_values xp fp xs ! k = fp ! 0) \<and>
         (xp ! (length xp - 1) \<le> xs ! k \<longrightarrow> np_interp_values xp fp xs ! k = fp ! (length xp - 1)) \<and>
         (\<forall>i. Suc i < length xp \<and> xp ! i \<le> xs ! k \<and> xs ! k \<le> xp ! Suc i \<longrightarrow>
            np_interp_values xp fp xs ! k =
              fp ! i + (xs ! k - xp ! i) * (fp ! Suc i - fp ! i) / (xp ! Suc i - xp ! i)) \<and>
         (\<forall>i<length xp. xs ! k = xp ! i \<longrightarrow> np_interp_values xp fp xs ! k = fp ! i)"
proof (cases "length xp = 1")
  case True
  then have v: "np_interp_values xp fp xs ! k = interp_single xp fp (xs ! k)"
    using k by (simp add: np_interp_values_def)
  show ?thesis unfolding v using True by (auto simp add: interp_single_def)
next
  case False
  then have n: "Suc 0 < length xp" using ne by (cases xp) auto
  obtain g where v: "np_interp_values xp fp xs ! k =
      interp_value xp fp (binary_search_with_guess (xs ! k) xp g) (xs ! k)"
    using interp_loop_nth [OF k, of xp fp 0] False by (auto simp add: np_interp_values_def)
  show ?thesis
    unfolding v
    using interp_first [OF s n, of "xs ! k" fp g] interp_last [OF s ne, of "xs ! k" fp g]
      interp_segment [OF s, of _ "xs ! k" fp g] interp_support [OF s, of _ fp g]
    by auto
qed

lemma tensor_add2_shape:
  assumes "length a = L" "list_all (\<lambda>r. length r = e) a"
    and "length x = L" "list_all (\<lambda>r. length r = e) x"
  shows "length (tensor_add2 a x) = L" "list_all (\<lambda>r. length r = e) (tensor_add2 a x)"
  using assms by (auto simp add: tensor_add2_def list_all_length)

lemma tensor_add2_nth:
  "i < length a \<Longrightarrow> i < length x \<Longrightarrow> j < length (a ! i) \<Longrightarrow> j < length (x ! i) \<Longrightarrow>
   tensor_add2 a x ! i ! j = a ! i ! j + x ! i ! j"
  by (simp add: tensor_add2_def)

lemma residual_layers_append:
  "residual_layers (pre @ post) t x = and_then (residual_layers pre t x) (residual_layers post t)"
proof (induction pre arbitrary: x)
  case Nil
  then show ?case by simp
next
  case (Cons l pre)
  show ?case
    by (cases "MultiTimeAttention_forward l x t") (simp_all add: Cons.IH)
qed

lemma residual_layers_shape:
  assumes "list_all (MultiTimeAttention_ok e e) ls"
    and "list_all (\<lambda>l. 0 < num_heads l \<and> e mod num_heads l = 0) ls"
    and "list_all (\<lambda>r. length r = e) x" and "length t = length x"
  shows "\<exists>y. residual_layers ls t x = Inr y \<and> length y = length x \<and> list_all (\<lambda>r. length r = e) y"
  using assms
proof (induction ls arbitrary: x)
  case Nil
  then show ?case by simp
next
  case (Cons l ls)
  from Cons.prems have ok: "MultiTimeAttention_ok e e l" and H: "0 < num_heads l"
    and dv: "e mod num_heads l = 0" by simp_all
  obtain a where a: "MultiTimeAttention_forward l x t = Inr a" "length a = length x"
      "list_all (\<lambda>r. length r = e) a"
    using MultiTimeAttention_forward_shape [OF ok H dv Cons.prems(3,4)] by blast
  have s1: "length (tensor_add2 a x) = length x"
    and s2: "list_all (\<lambda>r. length r = e) (tensor_add2 a x)"
    using tensor_add2_shape [OF a(2,3) refl Cons.prems(3)] by simp_all
  have "\<exists>y. residual_layers ls t (tensor_add2 a x) = Inr y \<and> length y = length (tensor_add2 a x) \<and>
         list_all (\<lambda>r. length r = e) y"
    using Cons.prems(1,2,4) s1 s2 by (intro Cons.IH) simp_all
  then show ?case by (simp add: a(1) s1)
qed

lemma input_proj_rows:
  assumes "ImprovedMTAN_ok e m"
  shows "Linear_forward (input_proj m) (unsqueeze_last x) =
           Inr (map (\<lambda>s. map (\<lambda>j. weight (input_proj m) ! j ! 0 * s + bias (input_proj m) ! j) [0..<e]) x)"
  using assms
  by (simp add: ImprovedMTAN_ok_def Linear_forward_def unsqueeze_last_def list_all_iff affine_def comp_def)

lemma fc_rows:
  assumes "ImprovedMTAN_ok e m" "list_all (\<lambda>r. length r = e) y"
  shows "and_then (Linear_forward (fc m) y) (\<lambda>z. Inr (squeeze_last z)) =
           Inr (map (\<lambda>r. (\<Sum>j<e. weight (fc m) ! 0 ! j * r ! j) + bias (fc m) ! 0) y)"
  using assms
  by (simp add: ImprovedMTAN_ok_def Linear_forward_def squeeze_last_def affine_def comp_def
      sum_list_upt_sum)

lemma ImprovedMTAN_forward_ok:
  assumes ok: "ImprovedMTAN_ok e m"
    and hs: "list_all (\<lambda>l. 0 < num_heads l \<and> e mod num_heads l = 0) (attention_layers m)"
    and t: "length t = length x"
  shows "\<exists>ys. ImprovedMTAN_forward m t x = Inr ys \<and> length ys = length x"
proof -
  let ?x0 = "map (\<lambda>s. map (\<lambda>j. weight (input_proj m) ! j ! 0 * s + bias (input_proj m) ! j) [0..<e]) x"
  have x0: "list_all (\<lambda>r. length r = e) ?x0" by (simp add: list_all_iff)
  have ls: "list_all (MultiTimeAttention_ok e e) (attention_layers m)"
    using ok by (simp add: ImprovedMTAN_ok_def)
  obtain y where y: "residual_layers (attention_layers m) t ?x0 = Inr y" "length y = length ?x0"
      "list_all (\<lambda>r. length r = e) y"
    using residual_layers_shape [OF ls hs x0] t by auto
  show ?thesis
    using fc_rows [OF ok y(3)] y(2)
    by (simp add: ImprovedMTAN_forward_def input_proj_rows [OF ok] y(1))
qed

lemma ImprovedMTAN_forward_no_layers:
  assumes ok: "ImprovedMTAN_ok e m" and n: "attention_layers m = []"
  shows "ImprovedMTAN_forward m t x =
     Inr (map (\<lambda>s. (\<Sum>j<e. weight (fc m) ! 0 ! j *
                          (weight (input_proj m) ! j ! 0 * s + bias (input_proj m) ! j))
                  + bias (fc m) ! 0) x)"
proof -
  let ?x0 = "map (\<lambda>s. map (\<lambda>j. weight (input_proj m) ! j ! 0 * s + bias (input_proj m) ! j) [0..<e]) x"
  have x0: "list_all (\<lambda>r. length r = e) ?x0" by (simp add: list_all_iff)
  have "ImprovedMTAN_forward m t x =
      and_then (Linear_forward (fc m) ?x0) (\<lambda>z. Inr (squeeze_last z))"
    by (simp add: ImprovedMTAN_forward_def input_proj_rows [OF ok] n)
  also have "\<dots> = Inr (map (\<lambda>r. (\<Sum>j<e. weight (fc m) ! 0 ! j * r ! j) + bias (fc m) ! 0) ?x0)"
    by (rule fc_rows [OF ok x0])
  also have "\<dots> = Inr (map (\<lambda>s. (\<Sum>j<e. weight (fc m) ! 0 ! j *
                          (weight (input_proj m) ! j ! 0 * s + bias (input_proj m) ! j))
                  + bias (fc m) ! 0) x)"
    by (simp add: comp_def)
  finally show ?thesis .
qed

lemma TimeEmbedding_call_eq:
  "TimeEmbedding_call st te t = (TimeEmbedding_forward te t, te, st)"
  by (simp add: TimeEmbedding_call_def Linear_call_def TimeEmbedding_forward_def)

lemma MultiTimeAttention_forward_streams:
  "MultiTimeAttention_forward m x t =
     and_then (Linear_forward (q_linear m) x) (\<lambda>q.
     and_then (Linear_forward (k_linear m) x) (\<lambda>k.
     and_then (Linear_forward (v_linear m) x) (\<lambda>v.
     and_then (TimeEmbedding_forward (time_embedding m) t) (\<lambda>te.
       MTA_attend m (length x) q k v te))))"
proof (cases "Linear_forward (q_linear m) x")
  case Inl
  then show ?thesis by (simp add: MultiTimeAttention_forward_def MTA_heads_def)
next
  case q: (Inr q)
  show ?thesis
  proof (cases "Linear_forward (k_linear m) x")
    case Inl
    then show ?thesis using q by (simp add: MultiTimeAttention_forward_def MTA_heads_def)
  next
    case k: (Inr k)
    show ?thesis
    proof (cases "Linear_forward (v_linear m) x")
      case Inl
      then show ?thesis using q k by (simp add: MultiTimeAttention_forward_def MTA_heads_def)
    next
      case v: (Inr v)
      show ?thesis
      proof (cases "TimeEmbedding_forward (time_embedding m) t")
        case Inl
        then show ?thesis using q k v by (simp add: MultiTimeAttention_forward_def MTA_heads_def)
      next
        case te: (Inr te)
        have "MultiTimeAttention_forward m x t = MTA_attend m (length x) q k v te"
          unfolding MultiTimeAttention_forward_def MTA_heads_def MTA_attend_def Let_def q k v te
            and_then_Inr
          by (simp add: and_then_def split: sum.splits)
        then show ?thesis using q k v te by simp
      qed
    qed
  qed
qed

lemma MultiTimeAttention_call_eq:
  "MultiTimeAttention_call st m x t = (MultiTimeAttention_forward m x t, m, st)"
  unfolding MultiTimeAttention_call_def MultiTimeAttention_forward_streams
    TimeEmbedding_call_eq Linear_call_def
  by (simp add: and_then_def split: sum.splits)

lemma residual_call_eq:
  "residual_call st ls t x = (residual_layers ls t x, ls, st)"
proof (induction ls arbitrary: x)
  case Nil
  then show ?case by simp
next
  case (Cons l ls)
  show ?case
    by (cases "MultiTimeAttention_forward l x t")
      (simp_all add: MultiTimeAttention_call_eq Cons.IH)
qed

lemma ImprovedMTAN_call_eq:
  "ImprovedMTAN_call st m t x = (ImprovedMTAN_forward m t x, m, st)"
  unfolding ImprovedMTAN_call_def ImprovedMTAN_forward_def residual_call_eq Linear_call_def
  by (simp add: and_then_def split: sum.splits)

lemma interpolate_eq:
  "interpolate st model t x t_dense =
     (and_then (np_interp t_dense t x) (\<lambda>x_dense.
        and_then (ImprovedMTAN_forward model t_dense x_dense) (\<lambda>out.
          Tensor_numpy False (squeeze_all 1 (length out) [out]))),
      model, st)"
  by (cases "np_interp t_dense t x") (simp_all add: interpolate_def Let_def ImprovedMTAN_call_eq)

lemma upt_0_2: "[0..<2] = [0, 1]"
  by (simp add: numeral_2_eq_2)

lemma example_layer_ok: "MultiTimeAttention_ok 2 2 example_layer"
  by (simp add: example_layer_def example_square_def example_embedding_def
      MultiTimeAttention_ok_def TimeEmbedding_ok_def Linear_ok_def)

lemma MultiTimeAttention_init_ok:
  assumes "0 < h"
  shows "\<exists>l. MultiTimeAttention_init ini s i e h = Inr l \<and> MultiTimeAttention_ok i e l \<and> num_heads l = h"
  using assms
  by (simp add: MultiTimeAttention_init_def MultiTimeAttention_ok_def nn_Linear_ok
      TimeEmbedding_init_ok) (simp add: nn_Linear_def TimeEmbedding_init_def)

lemma make_layers_ok:
  assumes "0 < h"
  shows "\<exists>ls. make_layers ini s e h n = Inr ls \<and> length ls = n \<and>
              list_all (MultiTimeAttention_ok e e) ls \<and> list_all (\<lambda>l. num_heads l = h) ls"
proof (induction n arbitrary: s)
  case 0
  then show ?case by simp
next
  case (Suc n)
  obtain l where l: "MultiTimeAttention_init ini s e e h = Inr l" "MultiTimeAttention_ok e e l"
      "num_heads l = h"
    using MultiTimeAttention_init_ok [OF assms] by blast
  obtain ls where ls: "make_layers ini (s + 4) e h n = Inr ls" "length ls = n"
      "list_all (MultiTimeAttention_ok e e) ls" "list_all (\<lambda>l. num_heads l = h) ls"
    using Suc.IH by blast
  show ?case by (simp add: l ls)
qed

lemma ImprovedMTAN_init_ok:
  assumes "0 < h"
  shows "\<exists>m. ImprovedMTAN_init ini 1 e h n = Inr m \<and> ImprovedMTAN_ok e m \<and>
             length (attention_layers m) = n \<and> list_all (\<lambda>l. num_heads l = h) (attention_layers m)"
proof -
  obtain ls where ls: "make_layers ini 1 e h n = Inr ls" "length ls = n"
      "list_all (MultiTimeAttention_ok e e) ls" "list_all (\<lambda>l. num_heads l = h) ls"
    using make_layers_ok [OF assms] by blast
  have "ImprovedMTAN_init ini 1 e h n =
      Inr \<lparr>input_proj = nn_Linear ini 0 1 e, attention_layers = ls,
           fc = nn_Linear ini (1 + 4 * n) e 1\<rparr>"
    unfolding ImprovedMTAN_init_def Let_def ls(1) and_then_Inr ..
  then show ?thesis
    using ls(2-) by (simp add: ImprovedMTAN_ok_def nn_Linear_ok) (simp add: nn_Linear_def)
qed

lemma ImprovedMTAN_init_no_layers:
  "\<exists>m. ImprovedMTAN_init ini 1 e h 0 = Inr m \<and> ImprovedMTAN_ok e m \<and> attention_layers m = []"
  by (simp add: ImprovedMTAN_init_def ImprovedMTAN_ok_def nn_Linear_ok) (simp add: nn_Linear_def)

lemma view3_mismatch:
  assumes "list_all (\<lambda>r. length r = e) X" "X \<noteq> []" "H * D \<noteq> e"
  shows "view3 (length X) H D X = Inl ShapeError"
proof -
  have "length (concat X) = length X * e" by (rule length_concat_uniform [OF assms(1)])
  moreover have "length X * e \<noteq> length X * H * D"
    using assms(2,3) by (simp add: mult.assoc)
  ultimately show ?thesis by (simp add: view3_def)
qed

lemma MultiTimeAttention_forward_mismatch:
  assumes ok: "MultiTimeAttention_ok e e l" and H: "0 < num_heads l" and dv: "e mod num_heads l \<noteq> 0"
    and x: "list_all (\<lambda>r. length r = e) x" and ne: "x \<noteq> []"
  shows "\<exists>q k v te.
           Linear_forward (q_linear l) x = Inr q \<and> Linear_forward (k_linear l) x = Inr k \<and>
           Linear_forward (v_linear l) x = Inr v \<and>
           TimeEmbedding_forward (time_embedding l) t = Inr te \<and>
           split_heads (length x) (num_heads l) (head_dim l) q = Inl ShapeError \<and>
           MultiTimeAttention_forward l x t = Inl ShapeError"
proof -
  let ?q = "map (affine (q_linear l)) x"
  have q: "Linear_forward (q_linear l) x = Inr ?q"
    and k: "Linear_forward (k_linear l) x = Inr (map (affine (k_linear l)) x)"
    and v: "Linear_forward (v_linear l) x = Inr (map (affine (v_linear l)) x)"
    using ok x by (simp_all add: MultiTimeAttention_ok_def Linear_forward_Inr)
  have te: "TimeEmbedding_forward (time_embedding l) t =
      Inr (map (\<lambda>s. map cos (affine (w (time_embedding l)) [s])) t)"
    using ok by (simp add: MultiTimeAttention_ok_def TimeEmbedding_forward_ok)
  have uq: "list_all (\<lambda>r. length r = e) ?q"
    using ok by (simp add: MultiTimeAttention_ok_def list_all_affine)
  have "num_heads l * (e div num_heads l) \<noteq> e"
    using dv by (metis mod_mult_self1_is_0)
  then have hd: "num_heads l * head_dim l \<noteq> e"
    using ok by (simp add: MultiTimeAttention_ok_def)
  have "view3 (length ?q) (num_heads l) (head_dim l) ?q = Inl ShapeError"
    using ne by (intro view3_mismatch [OF uq _ hd]) simp
  then have sq: "split_heads (length x) (num_heads l) (head_dim l) ?q = Inl ShapeError"
    by (simp add: split_heads_def)
  have "MTA_heads l x t = Inl ShapeError"
    by (simp add: MTA_heads_def q k v te sq)
  then have "MultiTimeAttention_forward l x t = Inl ShapeError"
    by (simp add: MultiTimeAttention_forward_def)
  with q k v te sq show ?thesis by simp
qed

lemma train_epochs_total:
  "train_epochs (\<lambda>s. Inr (upd s, loss s)) [a..<a + n] s printed =
     Inr ((upd ^^ n) s,
          printed @ map (\<lambda>k. (k + 1, loss ((upd ^^ (k - a)) s)))
                      (filter (\<lambda>k. (k + 1) mod 1000 = 0) [a..<a + n]))"
proof (induction n arbitrary: a s printed)
  case 0
  then show ?case by simp
next
  case (Suc n)
  define rest where "rest = [Suc a..<Suc a + n]"
  define printed' where
    "printed' = (if (a + 1) mod 1000 = 0 then printed @ [(a + 1, loss s)] else printed)"
  have up: "[a..<a + Suc n] = a # rest"
    by (simp add: upt_conv_Cons rest_def)
  have rest: "Suc a \<le> k" if "k \<in> set rest" for k
    using that by (auto simp add: rest_def)
  have tail: "map (\<lambda>k. (k + 1, loss ((upd ^^ (k - Suc a)) (upd s)))) (filter (\<lambda>k. (k + 1) mod 1000 = 0) rest)
      = map (\<lambda>k. (k + 1, loss ((upd ^^ (k - a)) s))) (filter (\<lambda>k. (k + 1) mod 1000 = 0) rest)"
  proof (rule map_cong [OF refl])
    fix k assume "k \<in> set (filter (\<lambda>k. (k + 1) mod 1000 = 0) rest)"
    then have "Suc a \<le> k" using rest by simp
    then have "k - a = Suc (k - Suc a)" by simp
    then show "(k + 1, loss ((upd ^^ (k - Suc a)) (upd s))) = (k + 1, loss ((upd ^^ (k - a)) s))"
      by (simp add: funpow_swap1)
  qed
  have "train_epochs (\<lambda>s. Inr (upd s, loss s)) (a # rest) s printed =
        train_epochs (\<lambda>s. Inr (upd s, loss s)) rest (upd s) printed'"
    by (simp add: printed'_def)
  also have "\<dots> = Inr ((upd ^^ n) (upd s),
          printed' @ map (\<lambda>k. (k + 1, loss ((upd ^^ (k - Suc a)) (upd s))))
                      (filter (\<lambda>k. (k + 1) mod 1000 = 0) rest))"
    unfolding rest_def by (rule Suc.IH)
  also have "(upd ^^ n) (upd s) = (upd ^^ Suc n) s"
    by (simp add: funpow_swap1)
  also have "printed' @ map (\<lambda>k. (k + 1, loss ((upd ^^ (k - Suc a)) (upd s))))
                      (filter (\<lambda>k. (k + 1) mod 1000 = 0) rest)
      = printed @ map (\<lambda>k. (k + 1, loss ((upd ^^ (k - a)) s)))
                      (filter (\<lambda>k. (k + 1) mod 1000 = 0) (a # rest))"
    unfolding tail by (simp add: printed'_def)
  finally show ?case unfolding up .
qed











lemma upt_0_3: "[0..<3] = [0, 1, 2]"
  by (simp add: numeral_3_eq_3)

lemma heads_divide_all:
  "list_all (heads_divide e) ls \<Longrightarrow> list_all (\<lambda>l. 0 < num_heads l \<and> e mod num_heads l = 0) ls"
  by (simp add: list_all_iff heads_divide_def)

lemma np_interp_Inr:
  "xp \<noteq> [] \<Longrightarrow> length fp = length xp \<Longrightarrow> np_interp q xp fp = Inr (np_interp_values xp fp q)"
  by (simp add: np_interp_def)

lemma make_layers_2:
  "make_layers ini s e h 2 =
     and_then (MultiTimeAttention_init ini s e e h) (\<lambda>l1.
     and_then (MultiTimeAttention_init ini (s + 4) e e h) (\<lambda>l2. Inr [l1, l2]))"
  by (simp add: numeral_2_eq_2 and_then_def split: sum.splits)

lemma example_model0_ok: "ImprovedMTAN_ok 2 example_model0"
  by (simp add: example_model0_def ImprovedMTAN_ok_def Linear_ok_def)

lemma example_model1_ok: "ImprovedMTAN_ok 2 example_model1"
  using example_layer_ok
  by (simp add: example_model1_def example_model0_def ImprovedMTAN_ok_def Linear_ok_def)

lemma example_layer_heads: "heads_divide 2 example_layer"
  by (simp add: heads_divide_def example_layer_def)

section \<open>The claims\<close>

text \<open>
  C6. For every time \<open>t\<close> and every parameter setting of a TimeEmbedding of the constructed
  shape, the embedding of \<open>t\<close> is a vector of exactly \<open>dim\<close> coordinates, coordinate \<open>i\<close>
  is \<open>cos (w\<^sub>i * t + b\<^sub>i)\<close> for the layer's weight \<open>w\<^sub>i\<close> and bias \<open>b\<^sub>i\<close>, and every
  coordinate lies in \<open>[-1, 1]\<close>. The forward pass takes a sequence of times and embeds each.
\<close>

theorem TimeEmbedding_cos_affine:
  assumes "TimeEmbedding_ok te"
  shows "TimeEmbedding_forward te ts =
           Inr (map (\<lambda>s. map (\<lambda>i. cos (weight (w te) ! i ! 0 * s + bias (w te) ! i)) [0..<dim te]) ts)
         \<and> (\<forall>k<length ts. \<forall>i<dim te.
               - 1 \<le> cos (weight (w te) ! i ! 0 * (ts ! k) + bias (w te) ! i) \<and>
               cos (weight (w te) ! i ! 0 * (ts ! k) + bias (w te) ! i) \<le> 1)"
  using assms
  by (simp add: TimeEmbedding_forward_ok TimeEmbedding_ok_def affine_def)

theorem TimeEmbedding_cos_affine_witness:
  "TimeEmbedding_ok example_embedding \<and>
   TimeEmbedding_forward example_embedding [0, 1] = Inr [[1, cos 1], [cos 1, cos 3]]"
  using TimeEmbedding_cos_affine [of example_embedding "[0, 1]"]
  by (simp add: example_embedding_def TimeEmbedding_ok_def Linear_ok_def upt_0_2)

text \<open>
  C1. In a forward pass of MultiTimeAttention on a sample of \<open>L\<close> rows (block of the
  constructed shape, head count dividing a positive embedding width, so that \<open>head_dim\<close> is
  positive), the logit of head \<open>h\<close> for query position \<open>i\<close> and key position \<open>j\<close> is the
  sum of two scaled dot products over the head's slice of the streams,
  \<open>(q\<^sub>i \<cdot> k\<^sub>j) / sqrt head_dim + (q\<^sub>i \<cdot> te\<^sub>j) / sqrt head_dim\<close>. The two score tensors are
  computed separately and added, the softmax is taken of their sum, and the output of the
  forward pass is the product of that softmax with the values, head by head, merged.
\<close>

theorem MTA_logits_two_scores:
  assumes ok: "MultiTimeAttention_ok input_dim e m"
    and H: "0 < num_heads m" and dv: "e mod num_heads m = 0" and e: "0 < e"
    and x: "list_all (\<lambda>r. length r = input_dim) x"
    and t: "length t = length x"
  shows "0 < head_dim m \<and> (\<exists>q k te qh kh vh teh.
      Linear_forward (q_linear m) x = Inr q \<and>
      Linear_forward (k_linear m) x = Inr k \<and>
      TimeEmbedding_forward (time_embedding m) t = Inr te \<and>
      MTA_heads m x t = Inr (qh, kh, vh, teh) \<and>
      MTA_logits m x t =
        Inr (tensor_add3 (MTA_score m (length x) qh kh) (MTA_score m (length x) qh teh)) \<and>
      MTA_attn m x t =
        Inr (softmax_last (tensor_add3 (MTA_score m (length x) qh kh) (MTA_score m (length x) qh teh))) \<and>
      MultiTimeAttention_forward m x t =
        merge_heads (length x) (num_heads m) (embed_dim m)
          (map (\<lambda>h. matmul (length x) (length x) (head_dim m)
                     (softmax_last (tensor_add3 (MTA_score m (length x) qh kh)
                                                (MTA_score m (length x) qh teh)) ! h)
                     (vh ! h))
             [0..<num_heads m]) \<and>
      (\<forall>h<num_heads m. \<forall>i<length x. \<forall>j<length x.
         MTA_score m (length x) qh kh ! h ! i ! j =
           (\<Sum>d<head_dim m. q ! i ! (h * head_dim m + d) * k ! j ! (h * head_dim m + d))
             / sqrt (real (head_dim m)) \<and>
         MTA_score m (length x) qh teh ! h ! i ! j =
           (\<Sum>d<head_dim m. q ! i ! (h * head_dim m + d) * te ! j ! (h * head_dim m + d))
             / sqrt (real (head_dim m)) \<and>
         tensor_add3 (MTA_score m (length x) qh kh) (MTA_score m (length x) qh teh) ! h ! i ! j =
           (\<Sum>d<head_dim m. q ! i ! (h * head_dim m + d) * k ! j ! (h * head_dim m + d))
             / sqrt (real (head_dim m)) +
           (\<Sum>d<head_dim m. q ! i ! (h * head_dim m + d) * te ! j ! (h * head_dim m + d))
             / sqrt (real (head_dim m))))"
proof -
  let ?H = "num_heads m" and ?D = "head_dim m" and ?L = "length x"
  let ?q = "map (affine (q_linear m)) x"
  let ?k = "map (affine (k_linear m)) x"
  let ?v = "map (affine (v_linear m)) x"
  let ?te = "map (\<lambda>s. map cos (affine (w (time_embedding m)) [s])) t"
  let ?hs = "\<lambda>X. map (\<lambda>h. map (\<lambda>l. take ?D (drop (h * ?D) (X ! l))) [0..<?L]) [0..<?H]"
  have hd: "?H * ?D = e" by (rule heads_dim [OF ok H dv])
  have heads: "MTA_heads m x t = Inr (?hs ?q, ?hs ?k, ?hs ?v, ?hs ?te)"
    by (rule MTA_heads_ok [OF ok hd x t])
  have q: "Linear_forward (q_linear m) x = Inr ?q"
    and k: "Linear_forward (k_linear m) x = Inr ?k"
    using ok x by (simp_all add: MultiTimeAttention_ok_def Linear_forward_Inr)
  have te: "TimeEmbedding_forward (time_embedding m) t = Inr ?te"
    using ok by (simp add: MultiTimeAttention_ok_def TimeEmbedding_forward_ok)
  have uq: "list_all (\<lambda>r. length r = ?H * ?D) ?q"
    and uk: "list_all (\<lambda>r. length r = ?H * ?D) ?k"
    using ok hd by (simp_all add: MultiTimeAttention_ok_def list_all_affine)
  have ute: "list_all (\<lambda>r. length r = ?H * ?D) ?te"
    using ok hd by (simp add: MultiTimeAttention_ok_def TimeEmbedding_ok_def list_all_iff)
  have blk: "?hs X ! h ! l ! d = X ! l ! (h * ?D + d)"
    if "list_all (\<lambda>r. length r = ?H * ?D) X" "length X = ?L" "h < ?H" "l < ?L" "d < ?D"
    for X :: "real list list" and h l d
    using that head_block_nth [of ?H ?D X l h d] by simp
  have qk: "MTA_score m ?L (?hs ?q) (?hs ?k) ! h ! i ! j =
      (\<Sum>d<?D. ?q ! i ! (h * ?D + d) * ?k ! j ! (h * ?D + d)) / sqrt (real ?D)"
    if "h < ?H" "i < ?L" "j < ?L" for h i j
  proof -
    have "(\<Sum>d<?D. ?hs ?q ! h ! i ! d * ?hs ?k ! h ! j ! d) =
          (\<Sum>d<?D. ?q ! i ! (h * ?D + d) * ?k ! j ! (h * ?D + d))"
    proof (rule sum.cong [OF refl])
      fix d assume "d \<in> {..<?D}"
      then have d: "d < ?D" by simp
      have a: "?hs ?q ! h ! i ! d = ?q ! i ! (h * ?D + d)"
        by (rule blk [OF uq]) (simp_all add: that d)
      have b: "?hs ?k ! h ! j ! d = ?k ! j ! (h * ?D + d)"
        by (rule blk [OF uk]) (simp_all add: that d)
      show "?hs ?q ! h ! i ! d * ?hs ?k ! h ! j ! d =
            ?q ! i ! (h * ?D + d) * ?k ! j ! (h * ?D + d)"
        by (simp only: a b)
    qed
    then show ?thesis by (simp only: MTA_score_nth [OF that])
  qed
  have qte: "MTA_score m ?L (?hs ?q) (?hs ?te) ! h ! i ! j =
      (\<Sum>d<?D. ?q ! i ! (h * ?D + d) * ?te ! j ! (h * ?D + d)) / sqrt (real ?D)"
    if "h < ?H" "i < ?L" "j < ?L" for h i j
  proof -
    have "(\<Sum>d<?D. ?hs ?q ! h ! i ! d * ?hs ?te ! h ! j ! d) =
          (\<Sum>d<?D. ?q ! i ! (h * ?D + d) * ?te ! j ! (h * ?D + d))"
    proof (rule sum.cong [OF refl])
      fix d assume "d \<in> {..<?D}"
      then have d: "d < ?D" by simp
      have a: "?hs ?q ! h ! i ! d = ?q ! i ! (h * ?D + d)"
        by (rule blk [OF uq]) (simp_all add: that d)
      have b: "?hs ?te ! h ! j ! d = ?te ! j ! (h * ?D + d)"
        by (rule blk [OF ute]) (simp_all add: that d t)
      show "?hs ?q ! h ! i ! d * ?hs ?te ! h ! j ! d =
            ?q ! i ! (h * ?D + d) * ?te ! j ! (h * ?D + d)"
        by (simp only: a b)
    qed
    then show ?thesis by (simp only: MTA_score_nth [OF that])
  qed
  have sum: "tensor_add3 (MTA_score m ?L (?hs ?q) (?hs ?k)) (MTA_score m ?L (?hs ?q) (?hs ?te)) ! h ! i ! j =
      MTA_score m ?L (?hs ?q) (?hs ?k) ! h ! i ! j + MTA_score m ?L (?hs ?q) (?hs ?te) ! h ! i ! j"
    if "h < ?H" "i < ?L" "j < ?L" for h i j
    using MTA_logits_of_nth [OF that] by (simp add: MTA_logits_of_def)
  have lg: "MTA_logits m x t =
      Inr (tensor_add3 (MTA_score m ?L (?hs ?q) (?hs ?k)) (MTA_score m ?L (?hs ?q) (?hs ?te)))"
    by (simp add: MTA_logits_def heads MTA_logits_of_def)
  have at: "MTA_attn m x t =
      Inr (softmax_last (tensor_add3 (MTA_score m ?L (?hs ?q) (?hs ?k)) (MTA_score m ?L (?hs ?q) (?hs ?te))))"
    by (simp add: MTA_attn_def heads MTA_logits_of_def)
  have fw: "MultiTimeAttention_forward m x t =
        merge_heads ?L ?H (embed_dim m)
          (map (\<lambda>h. matmul ?L ?L ?D
                     (softmax_last (tensor_add3 (MTA_score m ?L (?hs ?q) (?hs ?k))
                                                (MTA_score m ?L (?hs ?q) (?hs ?te))) ! h)
                     (?hs ?v ! h))
             [0..<?H])"
    by (simp add: MultiTimeAttention_forward_def heads MTA_logits_of_def Let_def)
  have dpos: "0 < ?D"
  proof (rule ccontr)
    assume "\<not> 0 < ?D"
    then have "?H * ?D = 0" by simp
    then show False using hd e by simp
  qed
  show ?thesis
    apply (rule conjI)
     apply (rule dpos)
    apply (intro exI conjI)
           apply (rule q)
          apply (rule k)
         apply (rule te)
        apply (rule heads)
       apply (rule lg)
      apply (rule at)
     apply (rule fw)
    apply (intro allI impI conjI)
      apply (erule (2) qk)
     apply (erule (2) qte)
    apply (simp only: sum qk qte)
    done
qed

theorem MTA_logits_two_scores_witness:
  "MultiTimeAttention_ok 2 2 example_layer \<and> 0 < num_heads example_layer \<and>
   2 mod num_heads example_layer = 0 \<and> (0 :: nat) < 2 \<and>
   list_all (\<lambda>r. length r = 2) [[1, 2 :: real]] \<and>
   length [0 :: real] = length [[1, 2 :: real]] \<and>
   MTA_logits example_layer [[1, 2]] [0] = Inr [[[2]], [[4 + 2 * cos 1]]] \<and>
   MultiTimeAttention_forward example_layer [[1, 2]] [0] = Inr [[1, 2]]"
proof -
  have h1: "MultiTimeAttention_ok 2 2 example_layer" by (rule example_layer_ok)
  have h2: "0 < num_heads example_layer" and h3: "2 mod num_heads example_layer = 0"
    by (simp_all add: example_layer_def)
  have h0: "(0 :: nat) < 2" by simp
  have h4: "list_all (\<lambda>r. length r = 2) [[1, 2 :: real]]" by simp
  have h5: "length [0 :: real] = length [[1, 2 :: real]]" by simp
  have c: "MTA_logits example_layer [[1, 2]] [0] = Inr [[[2]], [[4 + 2 * cos 1]]]"
    by (simp add: MTA_logits_def MTA_heads_def example_layer_def example_square_def
        example_embedding_def Linear_forward_def affine_def TimeEmbedding_forward_def
        unsqueeze_last_def split_heads_def view3_def transpose12_def MTA_logits_of_def
        MTA_score_def tensor_add3_def tensor_div_def matmul_transposed_def matmul_def Let_def
        upt_0_2)
  have d: "MultiTimeAttention_forward example_layer [[1, 2]] [0] = Inr [[1, 2]]"
    by (simp add: MultiTimeAttention_forward_def MTA_heads_def example_layer_def
        example_square_def example_embedding_def Linear_forward_def affine_def
        TimeEmbedding_forward_def unsqueeze_last_def split_heads_def view3_def transpose12_def
        MTA_logits_of_def MTA_score_def tensor_add3_def tensor_div_def matmul_transposed_def
        matmul_def softmax_last_def softmax_row_def merge_heads_def Let_def upt_0_2)
  from MTA_logits_two_scores [OF h1 h2 h3 h0 h4 h5] h1 h2 h3 h0 h4 h5 c d show ?thesis
    by (elim exE conjE, intro conjI) assumption+
qed

text \<open>
  C7. For a sample of length \<open>L \<ge> 1\<close> (and so for every sample of a batch of any size),
  the attention weights of every head are row-stochastic over the reals: for every head and
  every query position the row over the key positions has \<open>L\<close> entries, each non-negative,
  and sums to 1. These weights are the ones the forward pass multiplies with the values.
\<close>

theorem MTA_attn_row_stochastic:
  assumes ok: "MultiTimeAttention_ok input_dim e m"
    and H: "0 < num_heads m" and dv: "e mod num_heads m = 0" and e: "0 < e"
    and x: "list_all (\<lambda>r. length r = input_dim) x"
    and t: "length t = length x"
    and L: "x \<noteq> []"
  shows "\<exists>W qh kh vh teh.
      MTA_heads m x t = Inr (qh, kh, vh, teh) \<and>
      MTA_attn m x t = Inr W \<and>
      MultiTimeAttention_forward m x t =
        merge_heads (length x) (num_heads m) (embed_dim m)
          (map (\<lambda>h. matmul (length x) (length x) (head_dim m) (W ! h) (vh ! h)) [0..<num_heads m]) \<and>
      length W = num_heads m \<and>
      (\<forall>h<num_heads m. length (W ! h) = length x \<and>
         (\<forall>i<length x. length (W ! h ! i) = length x \<and>
            sum_list (W ! h ! i) = 1 \<and>
            (\<forall>j<length x. 0 \<le> W ! h ! i ! j)))"
proof -
  have hd: "num_heads m * head_dim m = e" by (rule heads_dim [OF ok H dv])
  obtain qh kh vh teh where heads: "MTA_heads m x t = Inr (qh, kh, vh, teh)"
    using MTA_heads_ok [OF ok hd x t] by blast
  let ?A = "MTA_logits_of m (length x) qh kh teh"
  let ?W = "softmax_last ?A"
  have at: "MTA_attn m x t = Inr ?W"
    by (simp add: MTA_attn_def heads)
  have fw: "MultiTimeAttention_forward m x t =
        merge_heads (length x) (num_heads m) (embed_dim m)
          (map (\<lambda>h. matmul (length x) (length x) (head_dim m) (?W ! h) (vh ! h)) [0..<num_heads m])"
    by (simp add: MultiTimeAttention_forward_def heads Let_def)
  have len: "length ?W = num_heads m"
    by (simp add: softmax_last_shape MTA_logits_of_shape)
  have rows: "length (?W ! h) = length x" if "h < num_heads m" for h
    using that by (simp add: softmax_last_shape MTA_logits_of_shape)
  have row: "?W ! h ! i = softmax_row (?A ! h ! i)" if "h < num_heads m" "i < length x" for h i
    using that by (simp add: softmax_last_nth MTA_logits_of_shape)
  have ne: "?A ! h ! i \<noteq> []" if "h < num_heads m" "i < length x" for h i
  proof -
    have "length (?A ! h ! i) = length x" using that by (simp add: MTA_logits_of_shape)
    then show ?thesis using L by auto
  qed
  have rlen: "length (?W ! h ! i) = length x" if "h < num_heads m" "i < length x" for h i
    using that by (simp add: row MTA_logits_of_shape)
  have rsum: "sum_list (?W ! h ! i) = 1" if "h < num_heads m" "i < length x" for h i
    using that by (simp add: row softmax_row_sum ne)
  have rpos: "0 \<le> ?W ! h ! i ! j" if "h < num_heads m" "i < length x" "j < length x" for h i j
  proof -
    have "j < length (?A ! h ! i)" using that by (simp add: MTA_logits_of_shape)
    then have "0 < softmax_row (?A ! h ! i) ! j" by (rule softmax_row_pos)
    then show ?thesis using that by (simp add: row)
  qed
  show ?thesis
    apply (intro exI conjI)
        apply (rule heads)
       apply (rule at)
      apply (rule fw)
     apply (rule len)
    apply (intro allI impI conjI)
       apply (erule rows)
      apply (erule (1) rlen)
     apply (erule (1) rsum)
    apply (erule (2) rpos)
    done
qed

theorem MTA_attn_row_stochastic_witness:
  "MultiTimeAttention_ok 2 2 example_layer \<and> 0 < num_heads example_layer \<and>
   2 mod num_heads example_layer = 0 \<and> list_all (\<lambda>r. length r = 2) [[1, 2], [3, 4 :: real]] \<and>
   length [0, 1 :: real] = length [[1, 2], [3, 4 :: real]] \<and> [[1, 2], [3, 4 :: real]] \<noteq> [] \<and>
   (\<exists>W. MTA_attn example_layer [[1, 2], [3, 4]] [0, 1] = Inr W \<and> length W = 2 \<and>
        length (W ! 1) = 2 \<and> length (W ! 1 ! 0) = 2 \<and> sum_list (W ! 1 ! 0) = 1 \<and>
        0 \<le> W ! 1 ! 0 ! 1)"
proof -
  have h1: "MultiTimeAttention_ok 2 2 example_layer" by (rule example_layer_ok)
  have h2: "0 < num_heads example_layer" and h3: "2 mod num_heads example_layer = 0"
    by (simp_all add: example_layer_def)
  have h4: "list_all (\<lambda>r. length r = 2) [[1, 2], [3, 4 :: real]]" by simp
  have h5: "length [0, 1 :: real] = length [[1, 2], [3, 4 :: real]]" by simp
  have h6: "[[1, 2], [3, 4 :: real]] \<noteq> []" by simp
  have nh: "num_heads example_layer = 2" by (simp add: example_layer_def)
  from MTA_attn_row_stochastic [OF h1 h2 h3 _ h4 h5 h6]
  obtain W where W: "MTA_attn example_layer [[1, 2], [3, 4]] [0, 1] = Inr W" "length W = 2"
    "\<forall>h<2. length (W ! h) = 2 \<and>
         (\<forall>i<2. length (W ! h ! i) = 2 \<and> sum_list (W ! h ! i) = 1 \<and> (\<forall>j<2. 0 \<le> W ! h ! i ! j))"
    unfolding nh by auto
  from W(3) have "length (W ! 1) = 2 \<and> length (W ! 1 ! 0) = 2 \<and> sum_list (W ! 1 ! 0) = 1 \<and>
        0 \<le> W ! 1 ! 0 ! 1" by simp
  with W(1,2) h1 h2 h3 h4 h5 h6 show ?thesis by blast
qed

text \<open>
  C3. For an observed series with strictly increasing times (at least one point, one value
  per time) and any query grid, the input the Interpolator feeds to the model is piecewise
  linear in the observations: a query at or below the first time gets the first value, a
  query at or above the last time gets the last value, a query between two neighbouring
  times gets the value on the straight line between the two observations, and a query
  equal to an observed time gets exactly the value observed there.
\<close>

theorem np_interp_piecewise_linear:
  assumes s: "sorted_wrt (<) t" and ne: "t \<noteq> []" and len: "length x = length t"
  shows "\<exists>ys. np_interp t_dense t x = Inr ys \<and> length ys = length t_dense \<and>
      fst (interpolate st model t x t_dense) =
        and_then (ImprovedMTAN_forward model t_dense ys)
          (\<lambda>out. Tensor_numpy False (squeeze_all 1 (length out) [out])) \<and>
      (\<forall>k<length t_dense.
         (t_dense ! k \<le> t ! 0 \<longrightarrow> ys ! k = x ! 0) \<and>
         (last t \<le> t_dense ! k \<longrightarrow> ys ! k = last x) \<and>
         (\<forall>i. Suc i < length t \<and> t ! i \<le> t_dense ! k \<and> t_dense ! k \<le> t ! Suc i \<longrightarrow>
            ys ! k = x ! i + (t_dense ! k - t ! i) * (x ! Suc i - x ! i) / (t ! Suc i - t ! i)) \<and>
         (\<forall>i<length t. t_dense ! k = t ! i \<longrightarrow> ys ! k = x ! i))"
proof -
  let ?ys = "np_interp_values t x t_dense"
  have run: "np_interp t_dense t x = Inr ?ys"
    by (rule np_interp_Inr [OF ne len])
  have lt: "last t = t ! (length t - 1)"
    using ne by (simp add: last_conv_nth)
  have "x \<noteq> []" using ne len by auto
  then have lx: "last x = x ! (length t - 1)"
    using len by (simp add: last_conv_nth)
  have ip: "fst (interpolate st model t x t_dense) =
        and_then (ImprovedMTAN_forward model t_dense ?ys)
          (\<lambda>out. Tensor_numpy False (squeeze_all 1 (length out) [out]))"
    by (simp add: interpolate_eq run)
  have all: "\<forall>k<length t_dense.
         (t_dense ! k \<le> t ! 0 \<longrightarrow> ?ys ! k = x ! 0) \<and>
         (last t \<le> t_dense ! k \<longrightarrow> ?ys ! k = last x) \<and>
         (\<forall>i. Suc i < length t \<and> t ! i \<le> t_dense ! k \<and> t_dense ! k \<le> t ! Suc i \<longrightarrow>
            ?ys ! k = x ! i + (t_dense ! k - t ! i) * (x ! Suc i - x ! i) / (t ! Suc i - t ! i)) \<and>
         (\<forall>i<length t. t_dense ! k = t ! i \<longrightarrow> ?ys ! k = x ! i)"
  proof (intro allI impI)
    fix k assume k: "k < length t_dense"
    show "(t_dense ! k \<le> t ! 0 \<longrightarrow> ?ys ! k = x ! 0) \<and>
         (last t \<le> t_dense ! k \<longrightarrow> ?ys ! k = last x) \<and>
         (\<forall>i. Suc i < length t \<and> t ! i \<le> t_dense ! k \<and> t_dense ! k \<le> t ! Suc i \<longrightarrow>
            ?ys ! k = x ! i + (t_dense ! k - t ! i) * (x ! Suc i - x ! i) / (t ! Suc i - t ! i)) \<and>
         (\<forall>i<length t. t_dense ! k = t ! i \<longrightarrow> ?ys ! k = x ! i)"
      unfolding lt lx by (rule np_interp_values_sorted [OF s ne k])
  qed
  have "length ?ys = length t_dense" by simp
  with run ip all show ?thesis by blast
qed

theorem np_interp_piecewise_linear_witness:
  "sorted_wrt (<) [0, 1 / 2, 1 :: real] \<and> [0, 1 / 2, 1 :: real] \<noteq> [] \<and>
   length [0, 1, 0 :: real] = length [0, 1 / 2, 1 :: real] \<and>
   np_interp [- 1, 1 / 4, 1 / 2, 2] [0, 1 / 2, 1] [0, 1, 0] = Inr [0, 1 / 2, 1, 0]"
proof -
  have h1: "sorted_wrt (<) [0, 1 / 2, 1 :: real]" by simp
  have h2: "[0, 1 / 2, 1 :: real] \<noteq> []" by simp
  have h3: "length [0, 1, 0 :: real] = length [0, 1 / 2, 1 :: real]" by simp
  from np_interp_piecewise_linear [OF h1 h2 h3, of "[- 1, 1 / 4, 1 / 2, 2]" grad_on example_model0]
  obtain ys where ys: "np_interp [- 1, 1 / 4, 1 / 2, 2] [0, 1 / 2, 1] [0, 1, 0] = Inr ys"
    "length ys = 4"
    and pt: "\<forall>k<4.
         ([- 1, 1 / 4, 1 / 2, 2] ! k \<le> [0, 1 / 2, 1 :: real] ! 0 \<longrightarrow> ys ! k = [0, 1, 0] ! 0) \<and>
         (last [0, 1 / 2, 1 :: real] \<le> [- 1, 1 / 4, 1 / 2, 2] ! k \<longrightarrow> ys ! k = last [0, 1, 0]) \<and>
         (\<forall>i. Suc i < length [0, 1 / 2, 1 :: real] \<and> [0, 1 / 2, 1] ! i \<le> [- 1, 1 / 4, 1 / 2, 2 :: real] ! k \<and>
               [- 1, 1 / 4, 1 / 2, 2] ! k \<le> [0, 1 / 2, 1 :: real] ! Suc i \<longrightarrow>
            ys ! k = [0, 1, 0] ! i + ([- 1, 1 / 4, 1 / 2, 2] ! k - [0, 1 / 2, 1] ! i) *
               ([0, 1, 0] ! Suc i - [0, 1, 0] ! i) / ([0, 1 / 2, 1] ! Suc i - [0, 1 / 2, 1] ! i)) \<and>
         (\<forall>i<length [0, 1 / 2, 1 :: real]. [- 1, 1 / 4, 1 / 2, 2] ! k = [0, 1 / 2, 1 :: real] ! i \<longrightarrow>
            ys ! k = [0, 1, 0] ! i)"
    by auto
  have "ys ! 0 = 0" using pt [rule_format, of 0] by simp
  moreover have "ys ! 1 = 1 / 2"
    using pt [rule_format, of 1, THEN conjunct2, THEN conjunct2, THEN conjunct1, rule_format, of 0]
    by simp
  moreover have "ys ! 2 = 1"
    using pt [rule_format, of 2, THEN conjunct2, THEN conjunct2, THEN conjunct2, rule_format, of 1]
    by simp
  moreover have "ys ! 3 = 0" using pt [rule_format, of 3] by simp
  ultimately have "ys = [0, 1 / 2, 1, 0]"
    using ys(2) by (intro nth_equalityI) (auto simp add: less_Suc_eq numeral_eq_Suc)
  with ys(1) h1 h2 h3 show ?thesis by simp
qed

text \<open>
  C8. With no attention block, the forward pass of the model is the output projection
  after the input projection, position by position, and does not depend on the times.
  With blocks, the forward pass runs the input projection, then the blocks in order, then
  the output projection: at every depth (any split \<open>pre @ l # post\<close> of the blocks) the
  output of block \<open>l\<close> is added entrywise to the block's own input, the sum is what the
  later blocks receive, and input, block output and sum all have the shape
  \<open>(L, hidden_dim)\<close>.
\<close>

theorem residual_stack:
  assumes ok: "ImprovedMTAN_ok e m"
  shows "(attention_layers m = [] \<longrightarrow>
            ImprovedMTAN_forward m t x =
              Inr (map (\<lambda>s. (\<Sum>j<e. weight (fc m) ! 0 ! j *
                                 (weight (input_proj m) ! j ! 0 * s + bias (input_proj m) ! j))
                            + bias (fc m) ! 0) x) \<and>
            ImprovedMTAN_forward m t' x = ImprovedMTAN_forward m t x)
       \<and> (attention_layers m = pre @ l # post \<and> list_all (heads_divide e) (attention_layers m) \<and>
            length t = length x \<longrightarrow>
            (\<exists>x0 xk a y.
               Linear_forward (input_proj m) (unsqueeze_last x) = Inr x0 \<and>
               length x0 = length x \<and> list_all (\<lambda>r. length r = e) x0 \<and>
               residual_layers pre t x0 = Inr xk \<and>
               length xk = length x \<and> list_all (\<lambda>r. length r = e) xk \<and>
               MultiTimeAttention_forward l xk t = Inr a \<and>
               length a = length x \<and> list_all (\<lambda>r. length r = e) a \<and>
               residual_layers (pre @ [l]) t x0 = Inr (tensor_add2 a xk) \<and>
               length (tensor_add2 a xk) = length x \<and>
               list_all (\<lambda>r. length r = e) (tensor_add2 a xk) \<and>
               (\<forall>i<length x. \<forall>j<e. tensor_add2 a xk ! i ! j = a ! i ! j + xk ! i ! j) \<and>
               residual_layers post t (tensor_add2 a xk) = Inr y \<and>
               residual_layers (attention_layers m) t x0 = Inr y \<and>
               length y = length x \<and> list_all (\<lambda>r. length r = e) y \<and>
               ImprovedMTAN_forward m t x =
                 Inr (map (\<lambda>r. (\<Sum>j<e. weight (fc m) ! 0 ! j * r ! j) + bias (fc m) ! 0) y)))"
proof (intro conjI impI)
  assume n: "attention_layers m = []"
  show "ImprovedMTAN_forward m t x =
              Inr (map (\<lambda>s. (\<Sum>j<e. weight (fc m) ! 0 ! j *
                                 (weight (input_proj m) ! j ! 0 * s + bias (input_proj m) ! j))
                            + bias (fc m) ! 0) x)"
    by (rule ImprovedMTAN_forward_no_layers [OF ok n])
  show "ImprovedMTAN_forward m t' x = ImprovedMTAN_forward m t x"
    by (simp only: ImprovedMTAN_forward_no_layers [OF ok n])
next
  assume a: "attention_layers m = pre @ l # post \<and> list_all (heads_divide e) (attention_layers m) \<and>
            length t = length x"
  then have split: "attention_layers m = pre @ l # post"
    and hs: "list_all (heads_divide e) (pre @ l # post)"
    and tx: "length t = length x" by auto
  let ?x0 = "map (\<lambda>s. map (\<lambda>j. weight (input_proj m) ! j ! 0 * s + bias (input_proj m) ! j) [0..<e]) x"
  have ip: "Linear_forward (input_proj m) (unsqueeze_last x) = Inr ?x0"
    by (rule input_proj_rows [OF ok])
  have x0: "length t = length ?x0" "list_all (\<lambda>r. length r = e) ?x0"
    using tx by (simp_all add: list_all_iff)
  have oks: "list_all (MultiTimeAttention_ok e e) (pre @ l # post)"
    using ok split by (simp add: ImprovedMTAN_ok_def)
  have pre_ok: "list_all (MultiTimeAttention_ok e e) pre"
    and l_ok: "MultiTimeAttention_ok e e l"
    and post_ok: "list_all (MultiTimeAttention_ok e e) post" using oks by simp_all
  have pre_h: "list_all (\<lambda>l. 0 < num_heads l \<and> e mod num_heads l = 0) pre"
    and l_h: "0 < num_heads l" "e mod num_heads l = 0"
    and post_h: "list_all (\<lambda>l. 0 < num_heads l \<and> e mod num_heads l = 0) post"
    using hs by (simp_all add: list_all_iff heads_divide_def)
  obtain xk where xk: "residual_layers pre t ?x0 = Inr xk" "length xk = length ?x0"
      "list_all (\<lambda>r. length r = e) xk"
    using residual_layers_shape [OF pre_ok pre_h x0(2,1)] by blast
  have tk: "length t = length xk" using xk(2) x0(1) by simp
  obtain a where a: "MultiTimeAttention_forward l xk t = Inr a" "length a = length xk"
      "list_all (\<lambda>r. length r = e) a"
    using MultiTimeAttention_forward_shape [OF l_ok l_h xk(3) tk] by blast
  have s1: "length (tensor_add2 a xk) = length xk"
    and s2: "list_all (\<lambda>r. length r = e) (tensor_add2 a xk)"
    using tensor_add2_shape [OF a(2,3) refl xk(3)] by simp_all
  have run: "residual_layers (pre @ [l]) t ?x0 = Inr (tensor_add2 a xk)"
    by (simp add: residual_layers_append xk(1) a(1))
  have ent: "tensor_add2 a xk ! i ! j = a ! i ! j + xk ! i ! j" if "i < length x" "j < e" for i j
    using that a(2,3) xk(2,3) by (intro tensor_add2_nth) (simp_all add: list_all_length)
  have ts: "length t = length (tensor_add2 a xk)" using s1 tk by simp
  obtain y where y: "residual_layers post t (tensor_add2 a xk) = Inr y"
      "length y = length (tensor_add2 a xk)" "list_all (\<lambda>r. length r = e) y"
    using residual_layers_shape [OF post_ok post_h s2 ts] by blast
  have whole: "residual_layers (attention_layers m) t ?x0 = Inr y"
    using residual_layers_append [of "pre @ [l]" post t ?x0] run y(1) by (simp add: split)
  have out: "ImprovedMTAN_forward m t x =
      Inr (map (\<lambda>r. (\<Sum>j<e. weight (fc m) ! 0 ! j * r ! j) + bias (fc m) ! 0) y)"
    using fc_rows [OF ok y(3)] by (simp add: ImprovedMTAN_forward_def ip whole)
  have lens: "length ?x0 = length x" "length xk = length x" "length a = length x"
      "length (tensor_add2 a xk) = length x" "length y = length x"
    using xk(2) a(2) s1 y(2) by simp_all
  show "\<exists>x0 xk a y.
               Linear_forward (input_proj m) (unsqueeze_last x) = Inr x0 \<and>
               length x0 = length x \<and> list_all (\<lambda>r. length r = e) x0 \<and>
               residual_layers pre t x0 = Inr xk \<and>
               length xk = length x \<and> list_all (\<lambda>r. length r = e) xk \<and>
               MultiTimeAttention_forward l xk t = Inr a \<and>
               length a = length x \<and> list_all (\<lambda>r. length r = e) a \<and>
               residual_layers (pre @ [l]) t x0 = Inr (tensor_add2 a xk) \<and>
               length (tensor_add2 a xk) = length x \<and>
               list_all (\<lambda>r. length r = e) (tensor_add2 a xk) \<and>
               (\<forall>i<length x. \<forall>j<e. tensor_add2 a xk ! i ! j = a ! i ! j + xk ! i ! j) \<and>
               residual_layers post t (tensor_add2 a xk) = Inr y \<and>
               residual_layers (attention_layers m) t x0 = Inr y \<and>
               length y = length x \<and> list_all (\<lambda>r. length r = e) y \<and>
               ImprovedMTAN_forward m t x =
                 Inr (map (\<lambda>r. (\<Sum>j<e. weight (fc m) ! 0 ! j * r ! j) + bias (fc m) ! 0) y)"
    apply (rule exI [of _ ?x0], rule exI [of _ xk], rule exI [of _ a], rule exI [of _ y])
    apply (intro conjI)
    using ip x0(2) xk(1,3) a(1,3) run s2 y(1,3) whole out lens ent apply simp_all
    done
qed

theorem residual_stack_witness:
  "ImprovedMTAN_ok 2 example_model0 \<and> attention_layers example_model0 = [] \<and>
   ImprovedMTAN_forward example_model0 [5, 7] [1, 3] = Inr [2, 6] \<and>
   ImprovedMTAN_forward example_model0 [0, 1] [1, 3] = ImprovedMTAN_forward example_model0 [5, 7] [1, 3] \<and>
   ImprovedMTAN_ok 2 example_model1 \<and>
   attention_layers example_model1 = [] @ example_layer # [] \<and>
   list_all (heads_divide 2) (attention_layers example_model1) \<and>
   length [0 :: real] = length [1 :: real] \<and>
   ImprovedMTAN_forward example_model1 [0] [1] = Inr [4] \<and>
   (\<exists>a y. MultiTimeAttention_forward example_layer [[1, 1]] [0] = Inr a \<and>
        residual_layers ([] @ [example_layer]) [0] [[1, 1]] = Inr (tensor_add2 a [[1, 1]]) \<and>
        length (tensor_add2 a [[1, 1]]) = 1 \<and>
        list_all (\<lambda>r. length r = 2) (tensor_add2 a [[1, 1]]) \<and>
        tensor_add2 a [[1, 1]] ! 0 ! 1 = a ! 0 ! 1 + 1 \<and>
        residual_layers (attention_layers example_model1) [0] [[1, 1]] = Inr y \<and>
        ImprovedMTAN_forward example_model1 [0] [1] = Inr (map (\<lambda>r. r ! 0 + r ! 1) y))"
proof -
  have h1: "ImprovedMTAN_ok 2 example_model0" by (rule example_model0_ok)
  have h2: "attention_layers example_model0 = []" by (simp add: example_model0_def)
  have g1: "ImprovedMTAN_ok 2 example_model1" by (rule example_model1_ok)
  have g2: "attention_layers example_model1 = [] @ example_layer # []"
    by (simp add: example_model1_def)
  have g3: "list_all (heads_divide 2) (attention_layers example_model1)"
    using example_layer_heads by (simp add: example_model1_def)
  have g4: "length [0 :: real] = length [1 :: real]" by simp
  from residual_stack [OF h1, of "[5, 7]" "[1, 3]" "[0, 1]"] h2
  have c1: "ImprovedMTAN_forward example_model0 [5, 7] [1, 3] = Inr [2, 6]"
    and c2: "ImprovedMTAN_forward example_model0 [0, 1] [1, 3] =
             ImprovedMTAN_forward example_model0 [5, 7] [1, 3]"
    by (simp_all add: example_model0_def numeral_2_eq_2)
  have x0: "Linear_forward (input_proj example_model1) (unsqueeze_last [1]) = Inr [[1, 1]]"
    by (simp add: example_model1_def example_model0_def Linear_forward_def unsqueeze_last_def
        affine_def upt_0_2)
  have fcw: "weight (fc example_model1) = [[1, 1]]" "bias (fc example_model1) = [0]"
    by (simp_all add: example_model1_def example_model0_def)
  from residual_stack [OF g1, where pre = "[]" and l = example_layer and post = "[]"
      and x = "[1]" and t = "[0]"] g2 g3 g4
  have c3: "\<exists>a y. MultiTimeAttention_forward example_layer [[1, 1]] [0] = Inr a \<and>
        residual_layers ([] @ [example_layer]) [0] [[1, 1]] = Inr (tensor_add2 a [[1, 1]]) \<and>
        length (tensor_add2 a [[1, 1]]) = 1 \<and>
        list_all (\<lambda>r. length r = 2) (tensor_add2 a [[1, 1]]) \<and>
        tensor_add2 a [[1, 1]] ! 0 ! 1 = a ! 0 ! 1 + 1 \<and>
        residual_layers (attention_layers example_model1) [0] [[1, 1]] = Inr y \<and>
        ImprovedMTAN_forward example_model1 [0] [1] = Inr (map (\<lambda>r. r ! 0 + r ! 1) y)"
    unfolding x0 fcw by (auto simp add: numeral_2_eq_2)
  have c4: "ImprovedMTAN_forward example_model1 [0] [1] = Inr [4]"
    by (simp add: ImprovedMTAN_forward_def example_model1_def example_model0_def
        MultiTimeAttention_forward_def MTA_heads_def example_layer_def
        example_square_def example_embedding_def Linear_forward_def affine_def
        TimeEmbedding_forward_def unsqueeze_last_def split_heads_def view3_def transpose12_def
        MTA_logits_of_def MTA_score_def tensor_add3_def tensor_div_def matmul_transposed_def
        matmul_def softmax_last_def softmax_row_def merge_heads_def tensor_add2_def
        squeeze_last_def Let_def upt_0_2)
  from h1 h2 c1 c2 g1 g2 g3 g4 c3 c4 show ?thesis by blast
qed





text \<open>
  C2, as the source has it. The spec asks that a width the head count does not divide be
  rejected before any computation. The constructors make no such check: a model of width 3
  with 2 heads and two blocks is built, and a model of width 3 with 2 heads and no block
  runs its forward pass.
\<close>

theorem odd_width_accepted:
  "(3::nat) mod 2 \<noteq> 0 \<and>
   \<not> isl (ImprovedMTAN_init unit_init 1 3 2 2) \<and>
   ImprovedMTAN_forward (projr (ImprovedMTAN_init unit_init 1 3 2 0)) [0] [1] = Inr [3]"
  by (simp add: ImprovedMTAN_init_def make_layers_2 MultiTimeAttention_init_def
      ImprovedMTAN_forward_def Linear_forward_def unsqueeze_last_def squeeze_last_def affine_def
      nn_Linear_def unit_init_def upt_0_3)

text \<open>
  C2, amended. For a head count \<open>h \<ge> 1\<close> that does not divide the width, the construction
  succeeds. A forward pass of a model without blocks returns one value per position. A
  forward pass of a model with blocks on a non-empty sequence computes the input projection
  and the first block's linear streams and then fails with a shape error at the first
  reshape into heads.
\<close>

theorem non_dividing_heads_fail_at_reshape:
  assumes h: "0 < h" and dv: "e mod h \<noteq> 0"
  shows "\<exists>m. ImprovedMTAN_init ini 1 e h n = Inr m \<and> length (attention_layers m) = n \<and>
      (n = 0 \<longrightarrow> (\<exists>ys. ImprovedMTAN_forward m t x = Inr ys \<and> length ys = length x)) \<and>
      (0 < n \<and> x \<noteq> [] \<longrightarrow>
         (\<exists>x0 q k v te.
            Linear_forward (input_proj m) (unsqueeze_last x) = Inr x0 \<and>
            Linear_forward (q_linear (attention_layers m ! 0)) x0 = Inr q \<and>
            Linear_forward (k_linear (attention_layers m ! 0)) x0 = Inr k \<and>
            Linear_forward (v_linear (attention_layers m ! 0)) x0 = Inr v \<and>
            TimeEmbedding_forward (time_embedding (attention_layers m ! 0)) t = Inr te \<and>
            split_heads (length x0) h (e div h) q = Inl ShapeError \<and>
            MultiTimeAttention_forward (attention_layers m ! 0) x0 t = Inl ShapeError \<and>
            ImprovedMTAN_forward m t x = Inl ShapeError))"
proof -
  obtain m where m: "ImprovedMTAN_init ini 1 e h n = Inr m" "ImprovedMTAN_ok e m"
      "length (attention_layers m) = n" "list_all (\<lambda>l. num_heads l = h) (attention_layers m)"
    using ImprovedMTAN_init_ok [OF h] by blast
  have zero: "\<exists>ys. ImprovedMTAN_forward m t x = Inr ys \<and> length ys = length x" if "n = 0"
  proof -
    have "attention_layers m = []" using that m(3) by simp
    then show ?thesis using ImprovedMTAN_forward_no_layers [OF m(2), of t x] by simp
  qed
  have pos: "\<exists>x0 q k v te.
            Linear_forward (input_proj m) (unsqueeze_last x) = Inr x0 \<and>
            Linear_forward (q_linear (attention_layers m ! 0)) x0 = Inr q \<and>
            Linear_forward (k_linear (attention_layers m ! 0)) x0 = Inr k \<and>
            Linear_forward (v_linear (attention_layers m ! 0)) x0 = Inr v \<and>
            TimeEmbedding_forward (time_embedding (attention_layers m ! 0)) t = Inr te \<and>
            split_heads (length x0) h (e div h) q = Inl ShapeError \<and>
            MultiTimeAttention_forward (attention_layers m ! 0) x0 t = Inl ShapeError \<and>
            ImprovedMTAN_forward m t x = Inl ShapeError" if "0 < n \<and> x \<noteq> []"
  proof -
    from that m(3) obtain l ls where ls: "attention_layers m = l # ls"
      by (cases "attention_layers m") auto
    have l_ok: "MultiTimeAttention_ok e e l" and nh: "num_heads l = h"
      using m(2,4) ls by (simp_all add: ImprovedMTAN_ok_def)
    have hd: "head_dim l = e div h" using l_ok nh by (simp add: MultiTimeAttention_ok_def)
    let ?x0 = "map (\<lambda>s. map (\<lambda>j. weight (input_proj m) ! j ! 0 * s + bias (input_proj m) ! j) [0..<e]) x"
    have ip: "Linear_forward (input_proj m) (unsqueeze_last x) = Inr ?x0"
      by (rule input_proj_rows [OF m(2)])
    have u: "list_all (\<lambda>r. length r = e) ?x0" by (simp add: list_all_iff)
    have ne: "?x0 \<noteq> []" using that by simp
    obtain q k v te where q: "Linear_forward (q_linear l) ?x0 = Inr q"
        "Linear_forward (k_linear l) ?x0 = Inr k" "Linear_forward (v_linear l) ?x0 = Inr v"
        "TimeEmbedding_forward (time_embedding l) t = Inr te"
        "split_heads (length ?x0) (num_heads l) (head_dim l) q = Inl ShapeError"
        "MultiTimeAttention_forward l ?x0 t = Inl ShapeError"
      using MultiTimeAttention_forward_mismatch [OF l_ok _ _ u ne, of t] h dv nh by auto
    have "ImprovedMTAN_forward m t x = Inl ShapeError"
      by (simp add: ImprovedMTAN_forward_def ip ls q(6))
    then show ?thesis using ip q ls nh hd by simp
  qed
  from m(1,3) zero pos show ?thesis by blast
qed

theorem non_dividing_heads_witness:
  "(0::nat) < 2 \<and> (3::nat) mod 2 \<noteq> 0 \<and>
   ImprovedMTAN_forward (projr (ImprovedMTAN_init unit_init 1 3 2 1)) [0] [1] = Inl ShapeError"
  using non_dividing_heads_fail_at_reshape [where h = 2 and e = 3 and ini = unit_init and n = 1 and t = "[0]" and x = "[1]"]
  by auto

text \<open>
  C4, as the source has it. The spec asks that a non-finite loss stop the run with an error
  of its own. The loop never looks at the loss: with a loss that is not finite in every
  epoch, three epochs make three updates and the call returns normally.
\<close>

theorem train_model_diverged_counterexample:
  "train_model diverged_step 3 0 = Inr (3, [])"
  by (simp add: train_model_def diverged_step_def upt_0_3)

text \<open>
  C4, amended. When no call inside the loop body raises, the trainer makes exactly
  \<open>epochs\<close> updates whatever the losses are, finite or not, and returns normally; a loss
  only appears in the report of every 1000th epoch.
\<close>

theorem train_model_ignores_loss:
  "train_model (\<lambda>s. Inr (upd s, loss s)) epochs s0 =
     Inr ((upd ^^ epochs) s0,
          map (\<lambda>k. (k + 1, loss ((upd ^^ k) s0))) (filter (\<lambda>k. (k + 1) mod 1000 = 0) [0..<epochs]))"
  using train_epochs_total [of upd loss 0 epochs s0 "[]"] by (simp add: train_model_def)

theorem train_model_ignores_loss_witness:
  "train_model (\<lambda>s. Inr (s + 2, Finite 0)) (Suc (Suc 0)) (0 :: nat) = Inr (4, [])"
  using train_model_ignores_loss [of "\<lambda>s. s + 2" "\<lambda>s. Finite 0" "Suc (Suc 0)" "0 :: nat"]
  by simp

text \<open>
  C5. What the Interpolator returns for a query grid of length \<open>m\<close> (model of the
  constructed shape, head counts dividing the width, observed series non-empty): the model
  yields \<open>m\<close> values, and \<open>squeeze()\<close> without an axis turns them into an array of \<open>m\<close>
  values unless \<open>m = 1\<close>, where it returns an array of dimension 0 and not a sequence of
  length 1.
\<close>

theorem interpolate_output_shape:
  assumes ok: "ImprovedMTAN_ok e model"
    and hs: "list_all (heads_divide e) (attention_layers model)"
    and ne: "t \<noteq> []" and len: "length x = length t"
  shows "\<exists>ys. ImprovedMTAN_forward model t_dense (np_interp_values t x t_dense) = Inr ys \<and>
      length ys = length t_dense \<and>
      fst (interpolate st model t x t_dense) =
        Inr (if length t_dense = 1 then Array0 (ys ! 0) else Array1 ys)"
proof -
  let ?xd = "np_interp_values t x t_dense"
  obtain ys where ys: "ImprovedMTAN_forward model t_dense ?xd = Inr ys" "length ys = length ?xd"
    using ImprovedMTAN_forward_ok [OF ok heads_divide_all [OF hs], of t_dense ?xd] by auto
  have "fst (interpolate st model t x t_dense) =
        Inr (if length t_dense = 1 then Array0 (ys ! 0) else Array1 ys)"
    using ys by (simp add: interpolate_eq np_interp_Inr [OF ne len] Tensor_numpy_def
        squeeze_all_def)
  with ys show ?thesis by auto
qed

theorem interpolate_single_query:
  "ImprovedMTAN_ok 2 example_model0 \<and>
   list_all (heads_divide 2) (attention_layers example_model0) \<and>
   [0, 1 :: real] \<noteq> [] \<and> length [0, 1 :: real] = length [0, 1 :: real] \<and>
   fst (interpolate grad_on example_model0 [0, 1] [0, 1] [1 / 2]) = Inr (Array0 1) \<and>
   fst (interpolate grad_on example_model0 [0, 1] [0, 1] [1 / 2, 1]) = Inr (Array1 [1, 2])"
proof -
  have h1: "ImprovedMTAN_ok 2 example_model0" by (rule example_model0_ok)
  have h2: "list_all (heads_divide 2) (attention_layers example_model0)"
    by (simp add: example_model0_def)
  have h3: "[0, 1 :: real] \<noteq> []" and h4: "length [0, 1 :: real] = length [0, 1 :: real]"
    by simp_all
  have fw: "ImprovedMTAN_forward example_model0 t x = Inr (map (\<lambda>s. s + s) x)" for t x
    using ImprovedMTAN_forward_no_layers [OF h1, of t x]
    by (simp add: example_model0_def numeral_2_eq_2)
  have i1: "np_interp_values [0, 1] [0, 1] [1 / 2] = [1 / 2]"
    and i2: "np_interp_values [0, 1] [0, 1] [1 / 2, 1] = [1 / 2, 1]"
    by (simp_all add: np_interp_values_def binary_search_with_guess_def linear_search_def
        interp_value_def Let_def)
  from interpolate_output_shape [OF h1 h2 h3 h4, of "[1 / 2]" grad_on]
  have c1: "fst (interpolate grad_on example_model0 [0, 1] [0, 1] [1 / 2]) = Inr (Array0 1)"
    unfolding i1 fw by auto
  from interpolate_output_shape [OF h1 h2 h3 h4, of "[1 / 2, 1]" grad_on]
  have c2: "fst (interpolate grad_on example_model0 [0, 1] [0, 1] [1 / 2, 1]) = Inr (Array1 [1, 2])"
    unfolding i2 fw by auto
  from h1 h2 h3 h4 c1 c2 show ?thesis by blast
qed

end
